theory Spec2Isabelle
  imports Main "HOL-Library.Sublist"
begin

section \<open>Values read from the document store\<close>

text \<open>
  The dashboard reads schema-less documents: \<^verbatim>\<open>doc.data()\<close> is an untyped object, and a
  field that the TypeScript interface declares as \<^verbatim>\<open>string\<close> may be absent or null in the
  stored document. A field is therefore a string, \<^verbatim>\<open>null\<close>, or \<^verbatim>\<open>undefined\<close> (absent).
  Other stored types (numbers, arrays, maps) do not occur in the fields the modelled
  code inspects and are outside the model.
\<close>

datatype field = Undefined | Null | Str string

datatype error = TypeError | TransportError

text \<open>JavaScript truthiness: \<^verbatim>\<open>undefined\<close>, \<^verbatim>\<open>null\<close> and the empty string are falsy.\<close>

fun truthy :: "field \<Rightarrow> bool" where
  "truthy (Str s) = (s \<noteq> [])"
| "truthy Null = False"
| "truthy Undefined = False"

text \<open>The property key a value is coerced to when it indexes a plain object.\<close>

fun property_key :: "field \<Rightarrow> string" where
  "property_key (Str s) = s"
| "property_key Null = ''null''"
| "property_key Undefined = ''undefined''"

text \<open>A document snapshot: the document id and the stored data.\<close>

record 'd doc =
  doc_id :: string
  doc_data :: 'd

subsection \<open>Strings\<close>

text \<open>
  \<^verbatim>\<open>String.prototype.toLowerCase\<close> on the ASCII letters (characters here are bytes; the
  bytes of a non-ASCII code point are left as they are) and \<^verbatim>\<open>String.prototype.includes\<close>.
\<close>

definition toLowerChar :: "char \<Rightarrow> char" where
  "toLowerChar c = (let n = (of_char c :: nat) in if 65 \<le> n \<and> n \<le> 90 then char_of (n + 32) else c)"

definition toLowerCase :: "string \<Rightarrow> string" where
  "toLowerCase s = map toLowerChar s"

fun includes_js :: "string \<Rightarrow> string \<Rightarrow> bool" where
  "includes_js [] q = (q = [])"
| "includes_js (c # cs) q = (prefix q (c # cs) \<or> includes_js cs q)"

text \<open>Decimal rendering of a natural number, as template literals and \<^verbatim>\<open>String(n)\<close> do.\<close>

fun string_of_nat :: "nat \<Rightarrow> string" where
  "string_of_nat n =
     (if n < 10 then [char_of (48 + n)]
      else string_of_nat (n div 10) @ [char_of (48 + n mod 10)])"

declare string_of_nat.simps [simp del]

definition is_digit :: "char \<Rightarrow> bool" where
  "is_digit c = (let n = (of_char c :: nat) in 48 \<le> n \<and> n \<le> 57)"

subsection \<open>Plain objects used as dictionaries\<close>

text \<open>
  \<^verbatim>\<open>customerOrders\<close> and \<^verbatim>\<open>productCounts\<close> are plain objects (\<^verbatim>\<open>{}\<close>) indexed by
  strings taken from the documents. Reading \<^verbatim>\<open>obj[k]\<close> gives the object's own property
  \<open>k\<close> when it has one and otherwise the property of that name inherited from
  \<^verbatim>\<open>Object.prototype\<close>. The inherited names are listed below; the inherited values are
  function objects, except that \<^verbatim>\<open>__proto__\<close> reads as \<^verbatim>\<open>Object.prototype\<close> itself. All of
  them are truthy and none is a number. (\<^verbatim>\<open>categoriesMap\<close> is a \<^verbatim>\<open>Map\<close> and has no
  inherited keys.)
\<close>

definition inherited_names :: "string list" where
  "inherited_names =
     [''constructor'', ''__proto__'', ''hasOwnProperty'', ''isPrototypeOf'',
      ''propertyIsEnumerable'', ''toLocaleString'', ''toString'', ''valueOf'',
      ''__defineGetter__'', ''__defineSetter__'', ''__lookupGetter__'', ''__lookupSetter__'']"

text \<open>
  The customers component may write the properties \<^verbatim>\<open>total\<close> and \<^verbatim>\<open>count\<close> onto such an
  inherited object (see \<open>group_order\<close> below). What it writes is always \<^verbatim>\<open>NaN\<close>
  (\<^verbatim>\<open>undefined + x\<close> and \<^verbatim>\<open>NaN + x\<close> are \<^verbatim>\<open>NaN\<close>), and the objects outlive the call. The
  state of the runtime is therefore the set of inherited names whose object carries
  \<^verbatim>\<open>total\<close> and \<^verbatim>\<open>count\<close>. When \<^verbatim>\<open>Object.prototype\<close> itself carries them (the name
  \<^verbatim>\<open>__proto__\<close>), every object inherits \<^verbatim>\<open>total = count = NaN\<close>: the other inherited
  objects read them, numbers read them, and a plain object has the additional inherited
  names \<^verbatim>\<open>total\<close> and \<^verbatim>\<open>count\<close>.
\<close>

type_synonym runtime = "string set"

definition polluted :: "runtime \<Rightarrow> bool" where
  "polluted rt = (''__proto__'' \<in> rt)"

text \<open>What \<^verbatim>\<open>obj[k]\<close> finds in a plain object with the own properties \<open>own\<close>.\<close>

datatype 'v lookup = Own 'v | InheritedObject | InheritedNaN | Missing

definition plain_lookup :: "runtime \<Rightarrow> (string \<rightharpoonup> 'v) \<Rightarrow> string \<Rightarrow> 'v lookup" where
  "plain_lookup rt own k =
     (case own k of
        Some v \<Rightarrow> Own v
      | None \<Rightarrow>
          if k \<in> set inherited_names then InheritedObject
          else if polluted rt \<and> (k = ''total'' \<or> k = ''count'') then InheritedNaN
          else Missing)"

section \<open>Product category-name resolver (\<^verbatim>\<open>fetchProducts\<close>)\<close>

record category_data =
  cd_name :: field

record product_data =
  pd_id :: field
  pd_name :: field
  pd_description :: field
  pd_image :: field
  pd_price :: field
  pd_stock :: field
  pd_rating :: field
  pd_date :: field
  pd_categoryId :: field

text \<open>
  A table row \<^verbatim>\<open>{ id: doc.id, ...data, categoryName }\<close>. The spread comes after
  \<^verbatim>\<open>id\<close>, so a stored \<^verbatim>\<open>id\<close> field replaces the document id, and before
  \<^verbatim>\<open>categoryName\<close>, which therefore always is the resolved one.
\<close>

record product =
  p_id :: field
  p_name :: field
  p_description :: field
  p_image :: field
  p_price :: field
  p_stock :: field
  p_rating :: field
  p_date :: field
  p_categoryId :: field
  p_categoryName :: field

text \<open>
  \<^verbatim>\<open>categoriesSnapshot.forEach((doc) => categoriesMap.set(doc.id, doc.data().name))\<close>:
  a later document with the same id replaces the earlier entry.
\<close>

definition categoriesMap_set :: "(string \<rightharpoonup> field) \<Rightarrow> category_data doc \<Rightarrow> (string \<rightharpoonup> field)" where
  "categoriesMap_set m d = m(doc_id d \<mapsto> cd_name (doc_data d))"

definition categoriesMap_of :: "category_data doc list \<Rightarrow> (string \<rightharpoonup> field)" where
  "categoriesMap_of cats = foldl categoriesMap_set Map.empty cats"

text \<open>\<^verbatim>\<open>Map.prototype.get\<close>: a key that is not in the map gives \<^verbatim>\<open>undefined\<close>.\<close>

fun Map_get :: "(string \<rightharpoonup> field) \<Rightarrow> field \<Rightarrow> field" where
  "Map_get m (Str k) = (case m k of Some v \<Rightarrow> v | None \<Rightarrow> Undefined)"
| "Map_get m Null = Undefined"
| "Map_get m Undefined = Undefined"

definition categoryName_of :: "(string \<rightharpoonup> field) \<Rightarrow> product_data \<Rightarrow> field" where
  "categoryName_of m data =
     (if truthy (pd_categoryId data) then Map_get m (pd_categoryId data)
      else Str ''Uncategorized'')"

definition product_row :: "(string \<rightharpoonup> field) \<Rightarrow> product_data doc \<Rightarrow> product" where
  "product_row m d =
     (let data = doc_data d in
      \<lparr> p_id = (case pd_id data of Undefined \<Rightarrow> Str (doc_id d) | v \<Rightarrow> v),
        p_name = pd_name data,
        p_description = pd_description data,
        p_image = pd_image data,
        p_price = pd_price data,
        p_stock = pd_stock data,
        p_rating = pd_rating data,
        p_date = pd_date data,
        p_categoryId = pd_categoryId data,
        p_categoryName = categoryName_of m data \<rparr>)"

definition productsData :: "product_data doc list \<Rightarrow> category_data doc list \<Rightarrow> product list" where
  "productsData products cats = map (product_row (categoriesMap_of cats)) products"

text \<open>
  The category cell of the products table:
  \<^verbatim>\<open>product.categoryName ? <Badge>{product.categoryName}</Badge> : <span>Uncategorized</span>\<close>.
\<close>

datatype cell = Badge string | MutedText string

fun category_cell :: "product \<Rightarrow> cell" where
  "category_cell p =
     (case p_categoryName p of
        Str s \<Rightarrow> (if s \<noteq> [] then Badge s else MutedText ''Uncategorized'')
      | _ \<Rightarrow> MutedText ''Uncategorized'')"

text \<open>A product document that stores only a category reference.\<close>

definition product_in :: "string \<Rightarrow> field \<Rightarrow> product_data doc" where
  "product_in i c =
     \<lparr> doc_id = i,
       doc_data = \<lparr> pd_id = Undefined, pd_name = Undefined, pd_description = Undefined,
                    pd_image = Undefined, pd_price = Undefined, pd_stock = Undefined,
                    pd_rating = Undefined, pd_date = Undefined, pd_categoryId = c \<rparr> \<rparr>"

definition category_named :: "string \<Rightarrow> string \<Rightarrow> category_data doc" where
  "category_named i n = \<lparr> doc_id = i, doc_data = \<lparr> cd_name = Str n \<rparr> \<rparr>"

section \<open>Customer spend aggregator (\<^verbatim>\<open>fetchCustomers\<close>)\<close>

subsection \<open>Numbers\<close>

text \<open>
  Order totals are JavaScript numbers (IEEE doubles): \<^verbatim>\<open>NaN\<close>, or a value of a type that
  is a parameter of the model, together with the operations on it: \<^verbatim>\<open>Number.parseFloat\<close>
  on a string, \<^verbatim>\<open>+\<close> (which may give \<^verbatim>\<open>NaN\<close>), the literal \<^verbatim>\<open>0\<close>, truthiness (false
  for both zeros), and what \<^verbatim>\<open>toFixed\<close> needs: whether the value is finite and below
  \<open>10\<^sup>2\<^sup>1\<close> in magnitude, whether it is below zero, the integer nearest to a hundred times
  its magnitude, and \<^verbatim>\<open>Number::toString\<close>. Everything proved about the aggregator holds
  for every interpretation of the parameters, hence for doubles; no algebraic law of
  \<^verbatim>\<open>+\<close> is used.
\<close>

datatype 'n jsnum = NaN | Number 'n

record 'n number_ops =
  parse_text :: "string \<Rightarrow> 'n jsnum"
  num_add :: "'n \<Rightarrow> 'n \<Rightarrow> 'n jsnum"
  num_zero :: 'n
  num_truthy :: "'n \<Rightarrow> bool"
  fixed_notation :: "'n \<Rightarrow> bool"
  num_negative :: "'n \<Rightarrow> bool"
  hundredths :: "'n \<Rightarrow> nat"
  num_toString :: "'n \<Rightarrow> string"

text \<open>
  \<^verbatim>\<open>Number.parseFloat(v)\<close> converts its argument to a string first: \<^verbatim>\<open>undefined\<close> and
  \<^verbatim>\<open>null\<close> become \<^verbatim>\<open>"undefined"\<close> and \<^verbatim>\<open>"null"\<close>, which parse to \<^verbatim>\<open>NaN\<close>.
\<close>

fun parseFloat :: "'n number_ops \<Rightarrow> field \<Rightarrow> 'n jsnum" where
  "parseFloat ops (Str s) = parse_text ops s"
| "parseFloat ops Null = NaN"
| "parseFloat ops Undefined = NaN"

fun js_add :: "'n number_ops \<Rightarrow> 'n jsnum \<Rightarrow> 'n jsnum \<Rightarrow> 'n jsnum" where
  "js_add ops (Number x) (Number y) = num_add ops x y"
| "js_add ops NaN b = NaN"
| "js_add ops (Number x) NaN = NaN"

fun js_truthy :: "'n number_ops \<Rightarrow> 'n jsnum \<Rightarrow> bool" where
  "js_truthy ops (Number x) = num_truthy ops x"
| "js_truthy ops NaN = False"

text \<open>
  \<^verbatim>\<open>Number.prototype.toFixed(2)\<close>: a value that is not finite or not below \<open>10\<^sup>2\<^sup>1\<close> in
  magnitude is rendered by \<^verbatim>\<open>Number::toString\<close>; otherwise the result is an optional
  minus sign, the digits of the nearest number of hundredths without the last two, a point
  and the last two digits.
\<close>

definition fixed2 :: "nat \<Rightarrow> string" where
  "fixed2 n = string_of_nat (n div 100) @ [CHR ''.'', char_of (48 + n mod 100 div 10), char_of (48 + n mod 10)]"

fun toFixed2 :: "'n number_ops \<Rightarrow> 'n jsnum \<Rightarrow> string" where
  "toFixed2 ops (Number x) =
     (if fixed_notation ops x
      then (if num_negative ops x then ''-'' else []) @ fixed2 (hundredths ops x)
      else num_toString ops x)"
| "toFixed2 ops NaN = ''NaN''"

text \<open>A string with exactly two decimal digits: it ends in a point and two digits, and
  what precedes the point is not empty and holds no other point.\<close>

definition two_decimals :: "string \<Rightarrow> bool" where
  "two_decimals s =
     (case rev s of
        d2 # d1 # p # ds \<Rightarrow>
          is_digit d2 \<and> is_digit d1 \<and> p = CHR ''.'' \<and> ds \<noteq> [] \<and> CHR ''.'' \<notin> set ds
      | _ \<Rightarrow> False)"

subsection \<open>The aggregation\<close>

record order_data =
  od_userId :: field
  od_totalAmount :: field

record customer_data =
  cud_userId :: field
  cud_createdAt :: field
  cud_billingAddressId :: field
  cud_shippingAddressId :: field

record customer =
  c_id :: string
  c_userId :: field
  c_createdAt :: field
  c_billingAddressId :: field
  c_shippingAddressId :: field
  c_totalAmount :: string
  c_orderCount :: nat

text \<open>
  The accumulator \<^verbatim>\<open>{ total: number; count: number }\<close>. The count of an accumulator starts
  at 0 and is only incremented: it is a natural number.
\<close>

record 'n spend =
  sp_total :: "'n jsnum"
  sp_count :: nat

text \<open>\<^verbatim>\<open>Number.parseFloat(order.totalAmount) || 0\<close>\<close>

definition order_amount :: "'n number_ops \<Rightarrow> order_data \<Rightarrow> 'n jsnum" where
  "order_amount ops order =
     (let x = parseFloat ops (od_totalAmount order)
      in if js_truthy ops x then x else Number (num_zero ops))"

text \<open>
  \<^verbatim>\<open>customerOrders[k].total += amount; customerOrders[k].count += 1\<close> on an accumulator.
\<close>

definition add_to_spend :: "'n number_ops \<Rightarrow> 'n jsnum \<Rightarrow> 'n spend \<Rightarrow> 'n spend" where
  "add_to_spend ops amount e =
     (let e1 = e \<lparr> sp_total := js_add ops (sp_total e) amount \<rparr>
      in e1 \<lparr> sp_count := sp_count e1 + 1 \<rparr>)"

text \<open>
  The body of \<^verbatim>\<open>ordersSnapshot.forEach\<close>, on the runtime state and the own properties of
  \<^verbatim>\<open>customerOrders\<close>. Inside the guard \<^verbatim>\<open>if (order.userId)\<close>:
  \<^item> when \<^verbatim>\<open>customerOrders[k]\<close> is falsy (nothing found, or the inherited \<^verbatim>\<open>NaN\<close>) a
    fresh accumulator becomes the own property \<open>k\<close>, and the two \<^verbatim>\<open>+=\<close> update it;
  \<^item> when it is an own accumulator the two \<^verbatim>\<open>+=\<close> update it;
  \<^item> when it is an inherited object, \<^verbatim>\<open>!customerOrders[k]\<close> is false, no own property is
    created, and the two \<^verbatim>\<open>+=\<close> write \<^verbatim>\<open>NaN\<close> onto the inherited object.
\<close>

definition group_order ::
  "'n number_ops \<Rightarrow> runtime \<times> (string \<rightharpoonup> 'n spend) \<Rightarrow> order_data doc \<Rightarrow>
   runtime \<times> (string \<rightharpoonup> 'n spend)" where
  "group_order ops s d =
     (let rt = fst s; customerOrders = snd s; order = doc_data d in
      if truthy (od_userId order) then
        let k = property_key (od_userId order) in
        (case plain_lookup rt customerOrders k of
           Own e \<Rightarrow> (rt, customerOrders(k \<mapsto> add_to_spend ops (order_amount ops order) e))
         | InheritedObject \<Rightarrow> (insert k rt, customerOrders)
         | InheritedNaN \<Rightarrow>
             (rt, customerOrders(k \<mapsto> add_to_spend ops (order_amount ops order)
                                      \<lparr> sp_total = Number (num_zero ops), sp_count = 0 \<rparr>))
         | Missing \<Rightarrow>
             (rt, customerOrders(k \<mapsto> add_to_spend ops (order_amount ops order)
                                      \<lparr> sp_total = Number (num_zero ops), sp_count = 0 \<rparr>)))
      else s)"

definition customerOrders_of ::
  "'n number_ops \<Rightarrow> runtime \<Rightarrow> order_data doc list \<Rightarrow> runtime \<times> (string \<rightharpoonup> 'n spend)" where
  "customerOrders_of ops rt orders = foldl (group_order ops) (rt, Map.empty) orders"

text \<open>
  The row of a customer. \<^verbatim>\<open>customerOrders[userId]?.total.toFixed(2) || "0.00"\<close> and
  \<^verbatim>\<open>customerOrders[userId]?.count || 0\<close>: the chain \<^verbatim>\<open>?.\<close> stops only at \<^verbatim>\<open>undefined\<close>.
  \<^item> Nothing found: \<^verbatim>\<open>"0.00"\<close> and 0.
  \<^item> An own accumulator: its total through \<^verbatim>\<open>toFixed(2)\<close>, and its count.
  \<^item> An inherited object: its \<^verbatim>\<open>total\<close> is \<^verbatim>\<open>NaN\<close> when it or \<^verbatim>\<open>Object.prototype\<close>
    carries one, giving \<^verbatim>\<open>"NaN"\<close> and (the count being \<^verbatim>\<open>NaN\<close>, falsy) 0; otherwise
    \<^verbatim>\<open>total\<close> is \<^verbatim>\<open>undefined\<close> and calling \<^verbatim>\<open>toFixed\<close> on it throws a TypeError.
  \<^item> The inherited \<^verbatim>\<open>NaN\<close>: its \<^verbatim>\<open>total\<close> and \<^verbatim>\<open>count\<close> are the inherited
    \<^verbatim>\<open>NaN\<close> again, giving \<^verbatim>\<open>"NaN"\<close> and 0.
\<close>

definition customer_with :: "customer_data doc \<Rightarrow> string \<Rightarrow> nat \<Rightarrow> customer" where
  "customer_with d totalAmount orderCount =
     (let data = doc_data d in
      \<lparr> c_id = doc_id d,
        c_userId = cud_userId data,
        c_createdAt = cud_createdAt data,
        c_billingAddressId = cud_billingAddressId data,
        c_shippingAddressId = cud_shippingAddressId data,
        c_totalAmount = totalAmount,
        c_orderCount = orderCount \<rparr>)"

definition customer_row ::
  "'n number_ops \<Rightarrow> runtime \<Rightarrow> (string \<rightharpoonup> 'n spend) \<Rightarrow> customer_data doc \<Rightarrow> error + customer" where
  "customer_row ops rt customerOrders d =
     (let userId = cud_userId (doc_data d); k = property_key userId in
      case plain_lookup rt customerOrders k of
        Missing \<Rightarrow> Inr (customer_with d ''0.00'' 0)
      | Own e \<Rightarrow>
          Inr (customer_with d
                 (let s = toFixed2 ops (sp_total e) in if s \<noteq> [] then s else ''0.00'')
                 (if sp_count e \<noteq> 0 then sp_count e else 0))
      | InheritedObject \<Rightarrow>
          if k \<in> rt \<or> polluted rt then Inr (customer_with d (toFixed2 ops NaN) 0)
          else Inl TypeError
      | InheritedNaN \<Rightarrow> Inr (customer_with d (toFixed2 ops NaN) 0))"

text \<open>\<^verbatim>\<open>Array.prototype.map\<close> with a callback that may throw: the first exception ends it.\<close>

fun map_js :: "('a \<Rightarrow> error + 'b) \<Rightarrow> 'a list \<Rightarrow> error + 'b list" where
  "map_js f [] = Inr []"
| "map_js f (x # xs) =
     (case f x of
        Inl e \<Rightarrow> Inl e
      | Inr y \<Rightarrow> (case map_js f xs of Inl e \<Rightarrow> Inl e | Inr ys \<Rightarrow> Inr (y # ys)))"

text \<open>The aggregation: the orders are grouped first, then one row per customer is built.
  The result is the runtime state it leaves and the rows, or the exception thrown.\<close>

definition customersData ::
  "'n number_ops \<Rightarrow> runtime \<Rightarrow> customer_data doc list \<Rightarrow> order_data doc list \<Rightarrow>
   runtime \<times> (error + customer list)" where
  "customersData ops rt customers orders =
     (let s = customerOrders_of ops rt orders
      in (fst s, map_js (customer_row ops (fst s) (snd s)) customers))"

text \<open>The orders that \<^verbatim>\<open>forEach\<close> files under a property key.\<close>

definition orders_under :: "string \<Rightarrow> order_data doc list \<Rightarrow> order_data doc list" where
  "orders_under k orders =
     filter (\<lambda>d. truthy (od_userId (doc_data d)) \<and> property_key (od_userId (doc_data d)) = k) orders"

text \<open>The running sum \<^verbatim>\<open>((0 + a1) + a2) + ...\<close> in snapshot order.\<close>

definition running_total :: "'n number_ops \<Rightarrow> 'n jsnum \<Rightarrow> order_data doc list \<Rightarrow> 'n jsnum" where
  "running_total ops t0 orders = foldl (\<lambda>t d. js_add ops t (order_amount ops (doc_data d))) t0 orders"

text \<open>
  The text of the total of a customer whose key names nothing inherited: \<^verbatim>\<open>"0.00"\<close> when
  no order is filed under the key (\<^verbatim>\<open>"NaN"\<close> for the keys \<^verbatim>\<open>total\<close> and \<^verbatim>\<open>count\<close> once
  \<^verbatim>\<open>Object.prototype\<close> carries them), otherwise the running sum through \<^verbatim>\<open>toFixed(2)\<close>.
\<close>

definition plain_total :: "'n number_ops \<Rightarrow> runtime \<Rightarrow> order_data doc list \<Rightarrow> string \<Rightarrow> string" where
  "plain_total ops rt orders k =
     (if orders_under k orders = []
      then (if polluted rt \<and> (k = ''total'' \<or> k = ''count'') then ''NaN'' else ''0.00'')
      else (let s = toFixed2 ops (running_total ops (Number (num_zero ops)) (orders_under k orders))
            in if s \<noteq> [] then s else ''0.00''))"

text \<open>
  The notions the properties below compare the aggregator with: the orders whose
  \<^verbatim>\<open>userId\<close> equals a given value, the \<^verbatim>\<open>userId\<close>s of the customers and of the orders,
  the orders whose \<^verbatim>\<open>userId\<close> is one of the customers', and the data-model invariant
  that every order's \<^verbatim>\<open>userId\<close> is the \<^verbatim>\<open>userId\<close> of exactly one customer.
\<close>

definition orders_with_userId :: "field \<Rightarrow> order_data doc list \<Rightarrow> order_data doc list" where
  "orders_with_userId u orders = filter (\<lambda>d. od_userId (doc_data d) = u) orders"

definition customer_userIds :: "customer_data doc list \<Rightarrow> field list" where
  "customer_userIds customers = map (\<lambda>c. cud_userId (doc_data c)) customers"

definition order_userIds :: "order_data doc list \<Rightarrow> field list" where
  "order_userIds orders = map (\<lambda>d. od_userId (doc_data d)) orders"

definition orders_of_customers :: "customer_data doc list \<Rightarrow> order_data doc list \<Rightarrow> order_data doc list" where
  "orders_of_customers customers orders =
     filter (\<lambda>d. od_userId (doc_data d) \<in> set (customer_userIds customers)) orders"

definition matches_exactly_one :: "customer_data doc list \<Rightarrow> order_data doc list \<Rightarrow> bool" where
  "matches_exactly_one customers orders =
     list_all (\<lambda>d. length (filter (\<lambda>u. u = od_userId (doc_data d)) (customer_userIds customers)) = 1)
       orders"

text \<open>The property keys the customers' \<^verbatim>\<open>userId\<close>s are looked up under, and the keys
  that name nothing inherited from the standard \<^verbatim>\<open>Object.prototype\<close>.\<close>

definition customer_keys :: "customer_data doc list \<Rightarrow> string list" where
  "customer_keys customers = map (\<lambda>c. property_key (cud_userId (doc_data c))) customers"

definition plain_key :: "string \<Rightarrow> bool" where
  "plain_key k = (k \<notin> set inherited_names)"

text \<open>String fields.\<close>

fun is_string :: "field \<Rightarrow> bool" where
  "is_string (Str s) = True"
| "is_string Null = False"
| "is_string Undefined = False"

subsection \<open>An interpretation of the numbers\<close>

text \<open>
  Numbers that are a natural number or positive infinity. On \<^verbatim>\<open>"Infinity"\<close> and on strings
  of decimal digits whose sums stay below \<open>2\<^sup>5\<^sup>3\<close> this agrees with doubles; it
  instantiates the parameters at concrete inputs.
\<close>

datatype whole = Whole nat | PosInfinity

definition nat_of_digits :: "string \<Rightarrow> nat" where
  "nat_of_digits ds = foldl (\<lambda>n c. 10 * n + (of_char c - 48)) 0 ds"

definition parse_whole :: "string \<Rightarrow> whole jsnum" where
  "parse_whole s =
     (if prefix ''Infinity'' s then Number PosInfinity
      else (let ds = takeWhile is_digit s
            in if ds = [] then NaN else Number (Whole (nat_of_digits ds))))"

fun add_whole :: "whole \<Rightarrow> whole \<Rightarrow> whole jsnum" where
  "add_whole (Whole a) (Whole b) = Number (Whole (a + b))"
| "add_whole PosInfinity b = Number PosInfinity"
| "add_whole (Whole a) PosInfinity = Number PosInfinity"

fun truthy_whole :: "whole \<Rightarrow> bool" where
  "truthy_whole (Whole n) = (n \<noteq> 0)"
| "truthy_whole PosInfinity = True"

text \<open>A natural number is below \<open>10\<^sup>2\<^sup>1\<close> when it has at most 21 decimal digits.\<close>

fun fixed_whole :: "whole \<Rightarrow> bool" where
  "fixed_whole (Whole n) = (length (string_of_nat n) \<le> 21)"
| "fixed_whole PosInfinity = False"

fun hundredths_whole :: "whole \<Rightarrow> nat" where
  "hundredths_whole (Whole n) = 100 * n"
| "hundredths_whole PosInfinity = 0"

fun toString_whole :: "whole \<Rightarrow> string" where
  "toString_whole (Whole n) = string_of_nat n"
| "toString_whole PosInfinity = ''Infinity''"

definition whole_ops :: "whole number_ops" where
  "whole_ops =
     \<lparr> parse_text = parse_whole, num_add = add_whole, num_zero = Whole 0,
       num_truthy = truthy_whole, fixed_notation = fixed_whole,
       num_negative = (\<lambda>x. False), hundredths = hundredths_whole,
       num_toString = toString_whole \<rparr>"

definition order_of :: "string \<Rightarrow> field \<Rightarrow> field \<Rightarrow> order_data doc" where
  "order_of i u a = \<lparr> doc_id = i, doc_data = \<lparr> od_userId = u, od_totalAmount = a \<rparr> \<rparr>"

definition customer_of :: "string \<Rightarrow> field \<Rightarrow> customer_data doc" where
  "customer_of i u =
     \<lparr> doc_id = i,
       doc_data = \<lparr> cud_userId = u, cud_createdAt = Undefined,
                    cud_billingAddressId = Undefined, cud_shippingAddressId = Undefined \<rparr> \<rparr>"

text \<open>Two customers and four orders, one of them of an unknown user and one malformed.\<close>

definition sample_customers :: "customer_data doc list" where
  "sample_customers = [customer_of ''c1'' (Str ''u1''), customer_of ''c2'' (Str ''u2'')]"

definition sample_orders :: "order_data doc list" where
  "sample_orders =
     [order_of ''o1'' (Str ''u1'') (Str ''10''), order_of ''o2'' (Str ''u1'') (Str ''5''),
      order_of ''o3'' (Str ''u9'') (Str ''7''), order_of ''o4'' (Str ''u1'') (Str ''abc'')]"

text \<open>Three customers, two of them with the same \<^verbatim>\<open>userId\<close>, and two orders of the first.\<close>

definition duplicate_customers :: "customer_data doc list" where
  "duplicate_customers =
     [customer_of ''c1'' (Str ''u1''), customer_of ''c2'' (Str ''u2''), customer_of ''c3'' (Str ''u2'')]"

definition matched_orders :: "order_data doc list" where
  "matched_orders = [order_of ''o1'' (Str ''u1'') (Str ''10''), order_of ''o2'' (Str ''u1'') (Str ''abc'')]"

section \<open>Category product-count aggregator (\<^verbatim>\<open>fetchCategories\<close>)\<close>

text \<open>
  A value held in \<^verbatim>\<open>productCounts\<close> or in a row's \<^verbatim>\<open>productCount\<close>: a count, or a value
  that is not a number (an inherited function object, or the string that \<^verbatim>\<open>+ 1\<close> makes of
  it, such as \<^verbatim>\<open>"function Object() { [native code] }1"\<close>). The values that are not
  numbers are truthy, and comparing them with \<^verbatim>\<open>> 0\<close> is false.
\<close>

datatype count_value = Count nat | NonNumber

record category =
  cat_id :: string
  cat_name :: field
  cat_productCount :: count_value

text \<open>
  \<^verbatim>\<open>productCounts[k] || 0\<close> on the own properties of \<^verbatim>\<open>productCounts\<close>: an own value, an
  inherited object, or 0 when nothing is found. (An inherited \<^verbatim>\<open>total\<close> or \<^verbatim>\<open>count\<close>
  written by the customers component is \<^verbatim>\<open>NaN\<close>, falsy like \<^verbatim>\<open>undefined\<close>: the runtime
  state makes no difference here.)
\<close>

definition productCounts_or_zero :: "(string \<rightharpoonup> count_value) \<Rightarrow> string \<Rightarrow> count_value" where
  "productCounts_or_zero productCounts k =
     (case productCounts k of
        Some (Count n) \<Rightarrow> (if n \<noteq> 0 then Count n else Count 0)
      | Some NonNumber \<Rightarrow> NonNumber
      | None \<Rightarrow> (if k \<in> set inherited_names then NonNumber else Count 0))"

text \<open>\<^verbatim>\<open>v + 1\<close>: the next count, or a string when \<open>v\<close> is not a number.\<close>

fun plus_one :: "count_value \<Rightarrow> count_value" where
  "plus_one (Count n) = Count (n + 1)"
| "plus_one NonNumber = NonNumber"

text \<open>
  \<^verbatim>\<open>productCounts[categoryId] = (productCounts[categoryId] || 0) + 1\<close> inside the guard
  \<^verbatim>\<open>if (categoryId)\<close>. The assignment creates or updates the own property, except for
  the key \<^verbatim>\<open>__proto__\<close>: that assignment goes to the inherited setter, which ignores a
  value that is not an object.
\<close>

definition count_product ::
  "(string \<rightharpoonup> count_value) \<Rightarrow> product_data doc \<Rightarrow> (string \<rightharpoonup> count_value)" where
  "count_product productCounts d =
     (let categoryId = pd_categoryId (doc_data d) in
      if truthy categoryId then
        (let k = property_key categoryId;
             v = plus_one (productCounts_or_zero productCounts k)
         in if k = ''__proto__'' then productCounts else productCounts(k \<mapsto> v))
      else productCounts)"

definition productCounts_of :: "product_data doc list \<Rightarrow> (string \<rightharpoonup> count_value)" where
  "productCounts_of products = foldl count_product Map.empty products"

text \<open>\<^verbatim>\<open>productCount: productCounts[doc.id] || 0\<close>\<close>

definition category_row :: "(string \<rightharpoonup> count_value) \<Rightarrow> category_data doc \<Rightarrow> category" where
  "category_row productCounts d =
     \<lparr> cat_id = doc_id d,
       cat_name = cd_name (doc_data d),
       cat_productCount = productCounts_or_zero productCounts (doc_id d) \<rparr>"

definition categoriesData :: "product_data doc list \<Rightarrow> category_data doc list \<Rightarrow> category list" where
  "categoriesData products cats = map (category_row (productCounts_of products)) cats"

text \<open>The products whose \<^verbatim>\<open>categoryId\<close> equals a given value, and those that carry one.\<close>

definition products_with_categoryId :: "field \<Rightarrow> product_data doc list \<Rightarrow> product_data doc list" where
  "products_with_categoryId v products = filter (\<lambda>d. pd_categoryId (doc_data d) = v) products"

definition has_categoryId :: "product_data doc \<Rightarrow> bool" where
  "has_categoryId d = (pd_categoryId (doc_data d) \<noteq> Null \<and> pd_categoryId (doc_data d) \<noteq> Undefined)"

text \<open>Two categories and three products: two in the first category, one without any.\<close>

definition sample_categories :: "category_data doc list" where
  "sample_categories = [category_named ''c1'' ''Books'', category_named ''c2'' ''Toys'']"

definition sample_products :: "product_data doc list" where
  "sample_products =
     [product_in ''p1'' (Str ''c1''), product_in ''p2'' Null, product_in ''p3'' (Str ''c1'')]"

text \<open>
  A category whose document id is \<^verbatim>\<open>constructor\<close>, the name of a property every plain
  object inherits, and a product in that category.
\<close>

definition prototype_categories :: "category_data doc list" where
  "prototype_categories = [category_named ''constructor'' ''Books'']"

definition prototype_products :: "product_data doc list" where
  "prototype_products = [product_in ''p1'' (Str ''constructor'')]"

section \<open>Local substring search filter\<close>

text \<open>
  \<^verbatim>\<open>Array.prototype.filter\<close> with a predicate that may throw: the rows are visited in
  order and the first exception ends the call.
\<close>

fun filter_js :: "('r \<Rightarrow> error + bool) \<Rightarrow> 'r list \<Rightarrow> error + 'r list" where
  "filter_js p [] = Inr []"
| "filter_js p (x # xs) =
     (case p x of
        Inl e \<Rightarrow> Inl e
      | Inr b \<Rightarrow>
          (case filter_js p xs of
             Inl e \<Rightarrow> Inl e
           | Inr ys \<Rightarrow> Inr (if b then x # ys else ys)))"

text \<open>
  \<^verbatim>\<open>v.toLowerCase().includes(searchQuery.toLowerCase())\<close>: calling \<^verbatim>\<open>toLowerCase\<close> on
  \<^verbatim>\<open>undefined\<close> or \<^verbatim>\<open>null\<close> throws a TypeError.
\<close>

definition lower_includes :: "field \<Rightarrow> string \<Rightarrow> error + bool" where
  "lower_includes v q =
     (case v of
        Str s \<Rightarrow> Inr (includes_js (toLowerCase s) (toLowerCase q))
      | _ \<Rightarrow> Inl TypeError)"

definition customer_matches :: "string \<Rightarrow> customer \<Rightarrow> error + bool" where
  "customer_matches searchQuery c = lower_includes (c_userId c) searchQuery"

definition category_matches :: "string \<Rightarrow> category \<Rightarrow> error + bool" where
  "category_matches searchQuery c = lower_includes (cat_name c) searchQuery"

text \<open>
  The products predicate is a chain of \<^verbatim>\<open>||\<close>: the description is only looked at when
  the name does not match, the category name only when neither does, and only the
  category name is read through \<^verbatim>\<open>?.\<close>.
\<close>

definition product_matches :: "string \<Rightarrow> product \<Rightarrow> error + bool" where
  "product_matches searchQuery p =
     (case lower_includes (p_name p) searchQuery of
        Inl e \<Rightarrow> Inl e
      | Inr b1 \<Rightarrow>
          if b1 then Inr True
          else (case lower_includes (p_description p) searchQuery of
                  Inl e \<Rightarrow> Inl e
                | Inr b2 \<Rightarrow>
                    if b2 then Inr True
                    else (case p_categoryName p of
                            Str s \<Rightarrow> Inr (includes_js (toLowerCase s) (toLowerCase searchQuery))
                          | _ \<Rightarrow> Inr False)))"

text \<open>The body of the search effect: \<^verbatim>\<open>if (searchQuery) rows.filter(...) else rows\<close>.\<close>

definition substring_filter ::
  "(string \<Rightarrow> 'r \<Rightarrow> error + bool) \<Rightarrow> string \<Rightarrow> 'r list \<Rightarrow> error + 'r list" where
  "substring_filter matches searchQuery rows =
     (if searchQuery \<noteq> [] then filter_js (matches searchQuery) rows else Inr rows)"

section \<open>Table components\<close>

record toast =
  toast_title :: string
  toast_description :: string
  toast_destructive :: bool

text \<open>
  The state of a table component: the full row list, the displayed list, the loading
  flag, the query, and the notices raised so far. The categories and products tables
  also hold the id chosen in the delete dialog.
\<close>

record 'r table =
  t_rows :: "'r list"
  t_filtered :: "'r list"
  t_loading :: bool
  t_searchQuery :: string
  t_toasts :: "toast list"

record 'r deleting_table = "'r table" +
  t_deleteId :: field

definition initial_table :: "'r table" where
  "initial_table =
     \<lparr> t_rows = [], t_filtered = [], t_loading = True, t_searchQuery = [], t_toasts = [] \<rparr>"

definition initial_deleting_table :: "'r deleting_table" where
  "initial_deleting_table =
     \<lparr> t_rows = [], t_filtered = [], t_loading = True, t_searchQuery = [], t_toasts = [],
       t_deleteId = Null \<rparr>"

text \<open>
  The effect with dependencies \<^verbatim>\<open>[searchQuery, rows]\<close>. An exception thrown by the effect
  is not caught by the component: the result is then the error, not a state.
\<close>

definition search_effect ::
  "(string \<Rightarrow> 'r \<Rightarrow> error + bool) \<Rightarrow> ('r, 'z) table_scheme \<Rightarrow> error + ('r, 'z) table_scheme" where
  "search_effect matches t =
     (case substring_filter matches (t_searchQuery t) (t_rows t) of
        Inl e \<Rightarrow> Inl e
      | Inr filtered \<Rightarrow> Inr (t \<lparr> t_filtered := filtered \<rparr>))"

text \<open>
  \<^verbatim>\<open>onChange={(e) => setSearchQuery(e.target.value)}\<close>: setting the state to the value it
  has does not render again; otherwise the effect runs after the render.
\<close>

definition setSearchQuery ::
  "(string \<Rightarrow> 'r \<Rightarrow> error + bool) \<Rightarrow> string \<Rightarrow> ('r, 'z) table_scheme \<Rightarrow> error + ('r, 'z) table_scheme" where
  "setSearchQuery matches q t =
     (if q = t_searchQuery t then Inr t
      else search_effect matches (t \<lparr> t_searchQuery := q \<rparr>))"

text \<open>
  The end of a fetch: the \<^verbatim>\<open>try\<close> block sets both lists to the new rows, the
  \<^verbatim>\<open>catch\<close> block raises a notice, \<^verbatim>\<open>finally\<close> clears the loading flag. The new row
  list is a change of the effect's dependencies, so the effect runs after the render.
  The \<^verbatim>\<open>catch\<close> block is reached when a read fails and, in the customers table, when the
  aggregation throws; the lists then stay as they were. The customers fetch also returns
  the runtime state it leaves.
\<close>

definition fetch_failed :: "string \<Rightarrow> ('r, 'z) table_scheme \<Rightarrow> ('r, 'z) table_scheme" where
  "fetch_failed description t =
     t \<lparr> t_toasts := t_toasts t @
            [\<lparr> toast_title = ''Error'', toast_description = description, toast_destructive = True \<rparr>],
         t_loading := False \<rparr>"

definition fetch_loaded :: "'r list \<Rightarrow> ('r, 'z) table_scheme \<Rightarrow> ('r, 'z) table_scheme" where
  "fetch_loaded data t = t \<lparr> t_rows := data, t_filtered := data, t_loading := False \<rparr>"

definition fetchCustomers ::
  "'n number_ops \<Rightarrow> runtime \<Rightarrow> error + customer_data doc list \<Rightarrow> error + order_data doc list \<Rightarrow>
   customer table \<Rightarrow> runtime \<times> (error + customer table)" where
  "fetchCustomers ops rt customersSnapshot ordersSnapshot t =
     (case customersSnapshot of
        Inl e \<Rightarrow> (rt, Inr (fetch_failed ''Failed to load customers'' t))
      | Inr customers \<Rightarrow>
          (case ordersSnapshot of
             Inl e \<Rightarrow> (rt, Inr (fetch_failed ''Failed to load customers'' t))
           | Inr orders \<Rightarrow>
               (let r = customersData ops rt customers orders in
                case snd r of
                  Inl e \<Rightarrow> (fst r, Inr (fetch_failed ''Failed to load customers'' t))
                | Inr rows \<Rightarrow>
                    (fst r, search_effect customer_matches (fetch_loaded rows t)))))"

definition fetchCategories ::
  "error + category_data doc list \<Rightarrow> error + product_data doc list \<Rightarrow>
   category deleting_table \<Rightarrow> error + category deleting_table" where
  "fetchCategories categoriesSnapshot productsSnapshot t =
     (case categoriesSnapshot of
        Inl e \<Rightarrow> Inr (fetch_failed ''Failed to load categories'' t)
      | Inr cats \<Rightarrow>
          (case productsSnapshot of
             Inl e \<Rightarrow> Inr (fetch_failed ''Failed to load categories'' t)
           | Inr products \<Rightarrow>
               search_effect category_matches
                 (fetch_loaded (categoriesData products cats) t)))"

definition fetchProducts ::
  "error + product_data doc list \<Rightarrow> error + category_data doc list \<Rightarrow>
   product deleting_table \<Rightarrow> error + product deleting_table" where
  "fetchProducts productsSnapshot categoriesSnapshot t =
     (case productsSnapshot of
        Inl e \<Rightarrow> Inr (fetch_failed ''Failed to load products'' t)
      | Inr products \<Rightarrow>
          (case categoriesSnapshot of
             Inl e \<Rightarrow> Inr (fetch_failed ''Failed to load products'' t)
           | Inr cats \<Rightarrow>
               search_effect product_matches
                 (fetch_loaded (productsData products cats) t)))"

subsection \<open>The document store and deletion\<close>

datatype call = DeleteDoc string string

record store =
  st_categories :: "category_data doc list"
  st_products :: "product_data doc list"
  st_calls :: "call list"

text \<open>
  \<^verbatim>\<open>deleteDoc(doc(db, collection, id))\<close>: the request is issued; when the gateway answers
  without error the document with that id is gone from the collection.
\<close>

definition issue_deleteDoc :: "string \<Rightarrow> string \<Rightarrow> store \<Rightarrow> store" where
  "issue_deleteDoc coll i st = st \<lparr> st_calls := st_calls st @ [DeleteDoc coll i] \<rparr>"

definition deleted_from_store :: "string \<Rightarrow> string \<Rightarrow> store \<Rightarrow> store" where
  "deleted_from_store coll i st =
     (if coll = ''categories'' then st \<lparr> st_categories := filter (\<lambda>d. doc_id d \<noteq> i) (st_categories st) \<rparr>
      else if coll = ''products'' then st \<lparr> st_products := filter (\<lambda>d. doc_id d \<noteq> i) (st_products st) \<rparr>
      else st)"

text \<open>
  The two functional updates after a successful delete:
  \<^verbatim>\<open>setRows((prev) => prev.filter((row) => row.id !== deleteId))\<close> and the same on the
  displayed list.
\<close>

definition remove_row :: "('r \<Rightarrow> field) \<Rightarrow> string \<Rightarrow> ('r, 'z) table_scheme \<Rightarrow> ('r, 'z) table_scheme" where
  "remove_row rid d t =
     t \<lparr> t_rows := filter (\<lambda>r. rid r \<noteq> Str d) (t_rows t),
         t_filtered := filter (\<lambda>r. rid r \<noteq> Str d) (t_filtered t) \<rparr>"

definition notify :: "string \<Rightarrow> string \<Rightarrow> bool \<Rightarrow> ('r, 'z) table_scheme \<Rightarrow> ('r, 'z) table_scheme" where
  "notify title description destructive t =
     t \<lparr> t_toasts := t_toasts t @
            [\<lparr> toast_title = title, toast_description = description,
               toast_destructive = destructive \<rparr>] \<rparr>"

definition category_rid :: "category \<Rightarrow> field" where
  "category_rid c = Str (cat_id c)"

text \<open>
  The handlers below return the store together with the component: the state after the
  render that follows, or the error that ended the component. The flag \<open>ok\<close> says whether
  the gateway answers the delete request without error.
\<close>

text \<open>The part of \<^verbatim>\<open>handleDeleteCategory\<close> from the \<^verbatim>\<open>deleteDoc\<close> call on.\<close>

definition delete_category ::
  "bool \<Rightarrow> string \<Rightarrow> store \<Rightarrow> category deleting_table \<Rightarrow> store \<times> (error + category deleting_table)" where
  "delete_category ok d st t =
     (let st1 = issue_deleteDoc ''categories'' d st in
      if ok then
        (deleted_from_store ''categories'' d st1,
         search_effect category_matches
           ((notify ''Category deleted'' ''The category has been deleted successfully'' False
               (remove_row category_rid d t)) \<lparr> t_deleteId := Null \<rparr>))
      else (st1, Inr ((notify ''Error'' ''Failed to delete category'' True t) \<lparr> t_deleteId := Null \<rparr>)))"

text \<open>
  \<^verbatim>\<open>handleDeleteCategory\<close>. The guard reads the product count of the row held in
  memory: \<^verbatim>\<open>category?.productCount && category.productCount > 0\<close>. For a value that is
  not a number the comparison is false and the delete goes on.
\<close>

definition handleDeleteCategory ::
  "bool \<Rightarrow> store \<times> category deleting_table \<Rightarrow> store \<times> (error + category deleting_table)" where
  "handleDeleteCategory ok x =
     (let st = fst x; t = snd x in
      case t_deleteId t of
        Str deleteCategoryId \<Rightarrow>
          if deleteCategoryId = [] then (st, Inr t)
          else
            (case find (\<lambda>c. cat_id c = deleteCategoryId) (t_rows t) of
               Some category \<Rightarrow>
                 (case cat_productCount category of
                    Count n \<Rightarrow>
                      if n \<noteq> 0 \<and> n > 0 then
                        (st,
                         Inr ((notify ''Cannot delete category''
                                 (''This category has '' @ string_of_nat n
                                    @ '' products. Remove the products first.'') True t)
                              \<lparr> t_deleteId := Null \<rparr>))
                      else delete_category ok deleteCategoryId st t
                  | NonNumber \<Rightarrow> delete_category ok deleteCategoryId st t)
             | None \<Rightarrow> delete_category ok deleteCategoryId st t)
      | _ \<Rightarrow> (st, Inr t))"

text \<open>\<^verbatim>\<open>handleDeleteProduct\<close>: no guard precedes the delete request.\<close>

definition handleDeleteProduct ::
  "bool \<Rightarrow> store \<times> product deleting_table \<Rightarrow> store \<times> (error + product deleting_table)" where
  "handleDeleteProduct ok x =
     (let st = fst x; t = snd x in
      case t_deleteId t of
        Str deleteProductId \<Rightarrow>
          if deleteProductId = [] then (st, Inr t)
          else
            (let st1 = issue_deleteDoc ''products'' deleteProductId st in
             if ok then
               (deleted_from_store ''products'' deleteProductId st1,
                search_effect product_matches
                  ((notify ''Product deleted'' ''The product has been deleted successfully'' False
                      (remove_row p_id deleteProductId t)) \<lparr> t_deleteId := Null \<rparr>))
             else (st1, Inr ((notify ''Error'' ''Failed to delete product'' True t) \<lparr> t_deleteId := Null \<rparr>)))
      | _ \<Rightarrow> (st, Inr t))"

text \<open>\<^verbatim>\<open>onClick={() => setDeleteCategoryId(category.id)}\<close> and its products counterpart.\<close>

definition setDeleteId :: "field \<Rightarrow> 'r deleting_table \<Rightarrow> 'r deleting_table" where
  "setDeleteId v t = t \<lparr> t_deleteId := v \<rparr>"

text \<open>A store and the categories table as the fetch leaves it.\<close>

definition sample_store :: store where
  "sample_store = \<lparr> st_categories = sample_categories, st_products = sample_products, st_calls = [] \<rparr>"

definition sample_categories_table :: "category deleting_table" where
  "sample_categories_table =
     fetch_loaded (categoriesData sample_products sample_categories) initial_deleting_table"

text \<open>
  The store that holds the category with id \<^verbatim>\<open>constructor\<close> and its product, and the
  categories table as the fetch leaves it, with that category chosen in the delete dialog.
\<close>

definition prototype_store :: store where
  "prototype_store =
     \<lparr> st_categories = prototype_categories, st_products = prototype_products, st_calls = [] \<rparr>"

definition prototype_categories_table :: "category deleting_table" where
  "prototype_categories_table =
     setDeleteId (Str ''constructor'')
       (fetch_loaded (categoriesData prototype_products prototype_categories) initial_deleting_table)"

text \<open>The rows every query can be matched against without an exception.\<close>

definition customers_searchable :: "customer list \<Rightarrow> bool" where
  "customers_searchable rows = list_all (\<lambda>c. is_string (c_userId c)) rows"

definition categories_searchable :: "category list \<Rightarrow> bool" where
  "categories_searchable rows = list_all (\<lambda>c. is_string (cat_name c)) rows"

definition products_searchable :: "product list \<Rightarrow> bool" where
  "products_searchable rows = list_all (\<lambda>p. is_string (p_name p) \<and> is_string (p_description p)) rows"

text \<open>
  The invariant of a table: the displayed list is the substring filter of the full list
  under the current query.
\<close>

definition table_inv :: "(string \<Rightarrow> 'r \<Rightarrow> error + bool) \<Rightarrow> ('r, 'z) table_scheme \<Rightarrow> bool" where
  "table_inv matches t =
     (substring_filter matches (t_searchQuery t) (t_rows t) = Inr (t_filtered t))"

text \<open>
  Three product documents: the third stores no description. Their rows, the rows of the
  first two, and the three tables as a fetch leaves them.
\<close>

definition described_product :: "string \<Rightarrow> field \<Rightarrow> field \<Rightarrow> field \<Rightarrow> product_data doc" where
  "described_product i n d c =
     \<lparr> doc_id = i,
       doc_data = \<lparr> pd_id = Undefined, pd_name = n, pd_description = d,
                    pd_image = Undefined, pd_price = Undefined, pd_stock = Undefined,
                    pd_rating = Undefined, pd_date = Undefined, pd_categoryId = c \<rparr> \<rparr>"

definition sample_catalogue :: "product_data doc list" where
  "sample_catalogue =
     [described_product ''p1'' (Str ''Atlas'') (Str ''A book of maps'') (Str ''c1''),
      described_product ''p2'' (Str ''Kite'') (Str ''Flies'') Null,
      described_product ''p3'' (Str ''Ball'') Undefined (Str ''c2'')]"

definition sample_product_rows :: "product list" where
  "sample_product_rows = productsData sample_catalogue sample_categories"

definition sample_described_rows :: "product list" where
  "sample_described_rows = productsData (take 2 sample_catalogue) sample_categories"

definition rows_of :: "runtime \<times> (error + 'r list) \<Rightarrow> 'r list" where
  "rows_of r = (case snd r of Inr rows \<Rightarrow> rows | Inl e \<Rightarrow> [])"

definition sample_customer_rows :: "customer list" where
  "sample_customer_rows = rows_of (customersData whole_ops {} sample_customers sample_orders)"

definition sample_category_rows :: "category list" where
  "sample_category_rows = categoriesData sample_products sample_categories"

definition sample_customers_table :: "customer table" where
  "sample_customers_table = fetch_loaded sample_customer_rows initial_table"

definition sample_products_table :: "product deleting_table" where
  "sample_products_table = fetch_loaded sample_described_rows initial_deleting_table"

definition sample_undescribed_table :: "product deleting_table" where
  "sample_undescribed_table = fetch_loaded sample_product_rows initial_deleting_table"

text \<open>What a step leaves on screen: the full and the displayed row list, or the error.\<close>

definition outcome_lists :: "error + ('r, 'z) table_scheme \<Rightarrow> error + 'r list \<times> 'r list" where
  "outcome_lists r = (case r of Inl e \<Rightarrow> Inl e | Inr t \<Rightarrow> Inr (t_rows t, t_filtered t))"

section \<open>Properties of the category-name resolver\<close>

lemma categoriesMap_fold_notin:
  "k \<notin> doc_id ` set cats \<Longrightarrow> foldl categoriesMap_set m cats k = m k"
  by (induction cats arbitrary: m) (auto simp: categoriesMap_set_def)

lemma categoriesMap_fold_distinct:
  "distinct (map doc_id cats) \<Longrightarrow> c \<in> set cats \<Longrightarrow>
   foldl categoriesMap_set m cats (doc_id c) = Some (cd_name (doc_data c))"
proof (induction cats arbitrary: m)
  case Nil
  then show ?case by simp
next
  case (Cons a cats)
  show ?case
  proof (cases "c = a")
    case True
    with Cons.prems have "doc_id a \<notin> doc_id ` set cats" by simp
    then have "foldl categoriesMap_set (categoriesMap_set m a) cats (doc_id a) =
               categoriesMap_set m a (doc_id a)"
      by (rule categoriesMap_fold_notin)
    moreover have "categoriesMap_set m a (doc_id a) = Some (cd_name (doc_data a))"
      by (simp add: categoriesMap_set_def)
    ultimately show ?thesis
      using True by simp
  next
    case False
    with Cons show ?thesis by simp
  qed
qed

lemma categoriesMap_of_resolves:
  "distinct (map doc_id cats) \<Longrightarrow> c \<in> set cats \<Longrightarrow>
   categoriesMap_of cats (doc_id c) = Some (cd_name (doc_data c))"
  by (simp add: categoriesMap_of_def categoriesMap_fold_distinct)

lemma categoriesMap_of_misses:
  "k \<notin> doc_id ` set cats \<Longrightarrow> categoriesMap_of cats k = None"
  by (simp add: categoriesMap_of_def categoriesMap_fold_notin)

lemma productsData_length: "length (productsData ps cats) = length ps"
  by (simp add: productsData_def)

lemma productsData_categoryName:
  "i < length ps \<Longrightarrow>
   p_categoryName (productsData ps cats ! i) =
     categoryName_of (categoriesMap_of cats) (doc_data (ps ! i))"
  by (simp add: productsData_def product_row_def Let_def)

text \<open>
  Claim C7. A product whose \<^verbatim>\<open>categoryId\<close> is null or absent is given the category name
  \<^verbatim>\<open>"Uncategorized"\<close>, whatever the categories are.
\<close>

theorem categoryName_null_Uncategorized:
  assumes "i < length ps"
    and "pd_categoryId (doc_data (ps ! i)) = Null \<or> pd_categoryId (doc_data (ps ! i)) = Undefined"
  shows "p_categoryName (productsData ps cats ! i) = Str ''Uncategorized''"
  using assms by (auto simp: productsData_categoryName categoryName_of_def)

theorem categoryName_null_Uncategorized_witness:
  "(0::nat) < length [product_in ''p1'' Null]
   \<and> pd_categoryId (doc_data ([product_in ''p1'' Null] ! 0)) = Null
   \<and> p_categoryName (productsData [product_in ''p1'' Null] [category_named ''c1'' ''Books''] ! 0)
       = Str ''Uncategorized''"
  using categoryName_null_Uncategorized [of 0 "[product_in ''p1'' Null]" "[category_named ''c1'' ''Books'']"]
  by (simp add: product_in_def)

text \<open>
  Claim C3, as stated, asks for \<^verbatim>\<open>"Uncategorized"\<close> whenever the reference does not
  resolve. For products \<^verbatim>\<open>[{categoryId: "missing"}]\<close> and no categories the attached
  \<^verbatim>\<open>categoryName\<close> is \<^verbatim>\<open>undefined\<close>: the fallback label is only chosen when
  \<^verbatim>\<open>categoryId\<close> is falsy.
\<close>

theorem categoryName_unresolved_counterexample:
  "map p_categoryName (productsData [product_in ''p1'' (Str ''missing'')] []) = [Undefined]
   \<and> map p_categoryName (productsData [product_in ''p1'' (Str ''missing'')] []) \<noteq> [Str ''Uncategorized'']"
  by (simp add: productsData_def product_row_def product_in_def categoryName_of_def categoriesMap_of_def)

text \<open>
  Claim C3, amended. With the document ids of the categories pairwise distinct, there is one
  row per product, and its \<^verbatim>\<open>categoryName\<close> is the \<^verbatim>\<open>name\<close> of the category whose id
  is the product's non-empty \<^verbatim>\<open>categoryId\<close>; it is \<^verbatim>\<open>"Uncategorized"\<close> when
  \<^verbatim>\<open>categoryId\<close> is absent, null or empty; and it is \<^verbatim>\<open>undefined\<close> when a non-empty
  \<^verbatim>\<open>categoryId\<close> matches no category, in which case the table cell shows the text
  \<^verbatim>\<open>Uncategorized\<close>.
\<close>

theorem categoryName_resolution:
  assumes "distinct (map doc_id cats)" and "i < length ps"
  shows "length (productsData ps cats) = length ps
    \<and> (\<forall>c\<in>set cats. truthy (pd_categoryId (doc_data (ps ! i)))
           \<and> pd_categoryId (doc_data (ps ! i)) = Str (doc_id c)
         \<longrightarrow> p_categoryName (productsData ps cats ! i) = cd_name (doc_data c))
    \<and> (\<not> truthy (pd_categoryId (doc_data (ps ! i)))
         \<longrightarrow> p_categoryName (productsData ps cats ! i) = Str ''Uncategorized'')
    \<and> (truthy (pd_categoryId (doc_data (ps ! i)))
           \<and> (\<forall>c\<in>set cats. pd_categoryId (doc_data (ps ! i)) \<noteq> Str (doc_id c))
         \<longrightarrow> p_categoryName (productsData ps cats ! i) = Undefined
             \<and> category_cell (productsData ps cats ! i) = MutedText ''Uncategorized'')"
proof (intro conjI ballI impI)
  show "length (productsData ps cats) = length ps"
    by (rule productsData_length)
next
  fix c
  assume c: "c \<in> set cats"
    and h: "truthy (pd_categoryId (doc_data (ps ! i))) \<and> pd_categoryId (doc_data (ps ! i)) = Str (doc_id c)"
  from assms(1) c have "categoriesMap_of cats (doc_id c) = Some (cd_name (doc_data c))"
    by (rule categoriesMap_of_resolves)
  moreover from h have "pd_categoryId (doc_data (ps ! i)) = Str (doc_id c)" and "doc_id c \<noteq> []"
    by auto
  ultimately show "p_categoryName (productsData ps cats ! i) = cd_name (doc_data c)"
    using assms(2) by (simp add: productsData_categoryName categoryName_of_def)
next
  assume "\<not> truthy (pd_categoryId (doc_data (ps ! i)))"
  with assms(2) show "p_categoryName (productsData ps cats ! i) = Str ''Uncategorized''"
    by (simp add: productsData_categoryName categoryName_of_def)
next
  assume h: "truthy (pd_categoryId (doc_data (ps ! i)))
           \<and> (\<forall>c\<in>set cats. pd_categoryId (doc_data (ps ! i)) \<noteq> Str (doc_id c))"
  then obtain k where k: "pd_categoryId (doc_data (ps ! i)) = Str k"
    by (cases "pd_categoryId (doc_data (ps ! i))") auto
  with h have "k \<notin> doc_id ` set cats" by auto
  then have "categoriesMap_of cats k = None" by (rule categoriesMap_of_misses)
  with h k assms(2) show u: "p_categoryName (productsData ps cats ! i) = Undefined"
    by (simp add: productsData_categoryName categoryName_of_def)
  then show "category_cell (productsData ps cats ! i) = MutedText ''Uncategorized''"
    by simp
qed

theorem categoryName_resolution_witness:
  "distinct (map doc_id [category_named ''c1'' ''Books''])
   \<and> (2::nat) < length [product_in ''p1'' (Str ''c1''), product_in ''p2'' (Str ''missing''), product_in ''p3'' Null]
   \<and> p_categoryName (productsData
        [product_in ''p1'' (Str ''c1''), product_in ''p2'' (Str ''missing''), product_in ''p3'' Null]
        [category_named ''c1'' ''Books''] ! 0) = Str ''Books''
   \<and> p_categoryName (productsData
        [product_in ''p1'' (Str ''c1''), product_in ''p2'' (Str ''missing''), product_in ''p3'' Null]
        [category_named ''c1'' ''Books''] ! 1) = Undefined
   \<and> p_categoryName (productsData
        [product_in ''p1'' (Str ''c1''), product_in ''p2'' (Str ''missing''), product_in ''p3'' Null]
        [category_named ''c1'' ''Books''] ! 2) = Str ''Uncategorized''"
  using categoryName_resolution [of "[category_named ''c1'' ''Books'']" 0
      "[product_in ''p1'' (Str ''c1''), product_in ''p2'' (Str ''missing''), product_in ''p3'' Null]"]
    categoryName_resolution [of "[category_named ''c1'' ''Books'']" 1
      "[product_in ''p1'' (Str ''c1''), product_in ''p2'' (Str ''missing''), product_in ''p3'' Null]"]
    categoryName_resolution [of "[category_named ''c1'' ''Books'']" 2
      "[product_in ''p1'' (Str ''c1''), product_in ''p2'' (Str ''missing''), product_in ''p3'' Null]"]
  by (simp add: product_in_def category_named_def)

section \<open>Properties of the customer spend aggregator\<close>

lemma plain_lookup_plain:
  "plain_key k \<Longrightarrow>
   plain_lookup rt own k =
     (case own k of
        Some v \<Rightarrow> Own v
      | None \<Rightarrow> if polluted rt \<and> (k = ''total'' \<or> k = ''count'') then InheritedNaN else Missing)"
  by (simp add: plain_lookup_def plain_key_def split: option.splits)

lemma add_to_spend_eq:
  "add_to_spend ops a e = \<lparr> sp_total = js_add ops (sp_total e) a, sp_count = Suc (sp_count e) \<rparr>"
  by (cases e) (simp add: add_to_spend_def Let_def)

lemma group_order_other:
  "\<not> (truthy (od_userId (doc_data d)) \<and> property_key (od_userId (doc_data d)) = k) \<Longrightarrow>
   snd (group_order ops s d) k = snd s k"
  by (auto simp: group_order_def Let_def split: lookup.splits)

lemma group_order_same:
  assumes "truthy (od_userId (doc_data d))" and "property_key (od_userId (doc_data d)) = k"
    and "plain_key k"
  shows "snd (group_order ops s d) k =
     Some \<lparr> sp_total = js_add ops (case snd s k of None \<Rightarrow> Number (num_zero ops) | Some e \<Rightarrow> sp_total e)
                                  (order_amount ops (doc_data d)),
            sp_count = Suc (case snd s k of None \<Rightarrow> 0 | Some e \<Rightarrow> sp_count e) \<rparr>"
  using assms
  by (auto simp: group_order_def Let_def plain_lookup_plain add_to_spend_eq split: option.splits)

lemma foldl_group_order:
  assumes "plain_key k"
  shows "snd (foldl (group_order ops) s orders) k =
     (if orders_under k orders = [] then snd s k
      else Some \<lparr> sp_total = running_total ops
                     (case snd s k of None \<Rightarrow> Number (num_zero ops) | Some e \<Rightarrow> sp_total e)
                     (orders_under k orders),
                  sp_count = (case snd s k of None \<Rightarrow> 0 | Some e \<Rightarrow> sp_count e)
                             + length (orders_under k orders) \<rparr>)"
proof (induction orders arbitrary: s)
  case Nil
  then show ?case by (simp add: orders_under_def)
next
  case (Cons d orders)
  show ?case
  proof (cases "truthy (od_userId (doc_data d)) \<and> property_key (od_userId (doc_data d)) = k")
    case True
    then have u: "orders_under k (d # orders) = d # orders_under k orders"
      by (simp add: orders_under_def)
    from True assms have g: "snd (group_order ops s d) k =
       Some \<lparr> sp_total = js_add ops (case snd s k of None \<Rightarrow> Number (num_zero ops) | Some e \<Rightarrow> sp_total e)
                                  (order_amount ops (doc_data d)),
              sp_count = Suc (case snd s k of None \<Rightarrow> 0 | Some e \<Rightarrow> sp_count e) \<rparr>"
      by (simp add: group_order_same)
    show ?thesis
      by (simp add: Cons.IH u g running_total_def)
  next
    case False
    then have u: "orders_under k (d # orders) = orders_under k orders"
      by (auto simp: orders_under_def)
    from False have g: "snd (group_order ops s d) k = snd s k"
      by (rule group_order_other)
    show ?thesis
      by (simp add: Cons.IH u g)
  qed
qed

lemma customerOrders_of_key:
  "plain_key k \<Longrightarrow>
   snd (customerOrders_of ops rt orders) k =
     (if orders_under k orders = [] then None
      else Some \<lparr> sp_total = running_total ops (Number (num_zero ops)) (orders_under k orders),
                  sp_count = length (orders_under k orders) \<rparr>)"
  by (simp add: customerOrders_of_def foldl_group_order)

lemma map_js_total:
  "(\<forall>x\<in>set xs. f x = Inr (g x)) \<Longrightarrow> map_js f xs = Inr (map g xs)"
  by (induction xs) auto

lemma customer_row_plain:
  assumes "plain_key (property_key (cud_userId (doc_data d)))"
  shows "customer_row ops rt own d =
     Inr (customer_with d
            (case own (property_key (cud_userId (doc_data d))) of
               Some e \<Rightarrow> (let s = toFixed2 ops (sp_total e) in if s \<noteq> [] then s else ''0.00'')
             | None \<Rightarrow>
                 if polluted rt \<and> (property_key (cud_userId (doc_data d)) = ''total''
                                    \<or> property_key (cud_userId (doc_data d)) = ''count'')
                 then ''NaN'' else ''0.00'')
            (case own (property_key (cud_userId (doc_data d))) of
               Some e \<Rightarrow> sp_count e
             | None \<Rightarrow> 0))"
  using assms
  by (auto simp: customer_row_def Let_def plain_lookup_plain split: option.splits)

lemma customersData_plain:
  assumes "list_all plain_key (customer_keys customers)"
  shows "snd (customersData ops rt customers orders) =
     Inr (map (\<lambda>d. customer_with d
                  (plain_total ops (fst (customerOrders_of ops rt orders)) orders
                     (property_key (cud_userId (doc_data d))))
                  (length (orders_under (property_key (cud_userId (doc_data d))) orders)))
            customers)"
proof -
  have "\<forall>d\<in>set customers.
          customer_row ops (fst (customerOrders_of ops rt orders)) (snd (customerOrders_of ops rt orders)) d
          = Inr (customer_with d
                  (plain_total ops (fst (customerOrders_of ops rt orders)) orders
                     (property_key (cud_userId (doc_data d))))
                  (length (orders_under (property_key (cud_userId (doc_data d))) orders)))"
  proof
    fix d assume "d \<in> set customers"
    with assms have p: "plain_key (property_key (cud_userId (doc_data d)))"
      by (auto simp: customer_keys_def list_all_iff)
    show "customer_row ops (fst (customerOrders_of ops rt orders)) (snd (customerOrders_of ops rt orders)) d
          = Inr (customer_with d
                  (plain_total ops (fst (customerOrders_of ops rt orders)) orders
                     (property_key (cud_userId (doc_data d))))
                  (length (orders_under (property_key (cud_userId (doc_data d))) orders)))"
      by (simp add: customer_row_plain [OF p] customerOrders_of_key [OF p] plain_total_def Let_def)
  qed
  then show ?thesis
    by (simp add: customersData_def Let_def map_js_total)
qed

lemma string_of_nat_digits: "list_all is_digit (string_of_nat n)"
proof (induction n rule: string_of_nat.induct)
  case (1 n)
  have d: "is_digit (char_of (48 + k))" if "k < 10" for k :: nat
    using that by (simp add: is_digit_def)
  show ?case
  proof (cases "n < 10")
    case True
    then show ?thesis
      by (subst string_of_nat.simps) (simp add: d)
  next
    case False
    with 1 have "list_all is_digit (string_of_nat (n div 10))" by simp
    with False show ?thesis
      by (subst string_of_nat.simps) (simp add: d)
  qed
qed

lemma string_of_nat_nonempty: "string_of_nat n \<noteq> []"
  by (subst string_of_nat.simps) simp

lemma two_decimals_fixed2:
  assumes "sg = [] \<or> sg = ''-''"
  shows "two_decimals (sg @ fixed2 n)"
proof -
  have d: "is_digit (char_of (48 + k))" if "k < 10" for k :: nat
    using that by (simp add: is_digit_def)
  have "\<not> is_digit CHR ''.''" by (simp add: is_digit_def)
  with string_of_nat_digits [of "n div 100"] have p: "CHR ''.'' \<notin> set (string_of_nat (n div 100))"
    by (auto simp: list_all_iff)
  have "n mod 100 div 10 < 10" and "n mod 10 < 10" by simp_all
  then have "is_digit (char_of (48 + n mod 100 div 10))" and "is_digit (char_of (48 + n mod 10))"
    by (simp_all only: d)
  with assms p show ?thesis
    by (auto simp: two_decimals_def fixed2_def string_of_nat_nonempty)
qed

lemma two_decimals_toFixed2:
  "fixed_notation ops x \<Longrightarrow> two_decimals (toFixed2 ops (Number x))"
  by (simp add: two_decimals_fixed2)

lemma toFixed2_fixed_nonempty:
  "fixed_notation ops x \<Longrightarrow> toFixed2 ops (Number x) \<noteq> []"
  by (simp add: fixed2_def)

lemma orders_under_string:
  "orders_under (property_key (Str u)) orders = (if u \<noteq> [] then orders_with_userId (Str u) orders else [])"
proof -
  have "(truthy v \<and> property_key v = u) = (u \<noteq> [] \<and> v = Str u)" for v
    by (cases v) auto
  then show ?thesis
    by (simp add: orders_under_def orders_with_userId_def)
qed

lemma sample_rows:
  "list_all plain_key (customer_keys sample_customers)"
  "\<not> polluted (fst (customersData whole_ops {} sample_customers sample_orders))"
  "snd (customersData whole_ops {} sample_customers sample_orders)
     = Inr [customer_with (customer_of ''c1'' (Str ''u1'')) ''15.00'' 3,
            customer_with (customer_of ''c2'' (Str ''u2'')) ''0.00'' 0]"
  "length sample_customers = 2"
  "cud_userId (doc_data (sample_customers ! 0)) = Str ''u1''"
  "length (orders_with_userId (Str ''u1'') sample_orders) = 3"
  "two_decimals ''15.00''"
  by code_simp+

text \<open>
  Claim C1, as stated, makes \<^verbatim>\<open>orderCount\<close> the number of orders whose \<^verbatim>\<open>userId\<close>
  equals the customer's, and \<^verbatim>\<open>totalAmount\<close> a string with exactly two decimal digits.
  The guard \<^verbatim>\<open>if (order.userId)\<close> skips an order whose \<^verbatim>\<open>userId\<close> is the empty string:
  a customer with \<^verbatim>\<open>userId\<close> \<^verbatim>\<open>""\<close> and an order with the same \<^verbatim>\<open>userId\<close> give the row
  \<^verbatim>\<open>"0.00"\<close>/0, where the claim asks for the count 1. And an order whose \<^verbatim>\<open>totalAmount\<close>
  is \<^verbatim>\<open>"Infinity"\<close> gives the total \<^verbatim>\<open>"Infinity"\<close>, which has no decimal digits.
\<close>

theorem customer_row_counterexample:
  "snd (customersData whole_ops {} [customer_of ''c1'' (Str '''')] [order_of ''o1'' (Str '''') (Str ''5'')])
     = Inr [customer_with (customer_of ''c1'' (Str '''')) ''0.00'' 0]
   \<and> length (orders_with_userId (Str '''') [order_of ''o1'' (Str '''') (Str ''5'')]) = 1
   \<and> snd (customersData whole_ops {} [customer_of ''c1'' (Str ''u1'')]
            [order_of ''o1'' (Str ''u1'') (Str ''Infinity'')])
     = Inr [customer_with (customer_of ''c1'' (Str ''u1'')) ''Infinity'' 1]
   \<and> \<not> two_decimals ''Infinity''"
  by code_simp

text \<open>
  Claim C1, amended. Let no customer's \<^verbatim>\<open>userId\<close>, read as a property key, name a
  property inherited from \<^verbatim>\<open>Object.prototype\<close>, and let the runtime that the aggregation
  leaves carry no \<^verbatim>\<open>total\<close> or \<^verbatim>\<open>count\<close> on \<^verbatim>\<open>Object.prototype\<close>. Then the aggregation
  returns exactly one row per customer, in the order of the customers, and for the
  \<open>i\<close>-th customer:
  \<^item> \<^verbatim>\<open>orderCount\<close> is the number of orders that carry a truthy \<^verbatim>\<open>userId\<close> and are filed
    under the customer's \<^verbatim>\<open>userId\<close> as property key; for a customer whose \<^verbatim>\<open>userId\<close> is a
    non-empty string these are the orders whose \<^verbatim>\<open>userId\<close> equals it, for the empty string
    there are none;
  \<^item> \<^verbatim>\<open>totalAmount\<close> is \<^verbatim>\<open>"0.00"\<close> when there is no such order, otherwise \<^verbatim>\<open>toFixed(2)\<close>
    of the running sum, from 0 and in snapshot order, of
    \<^verbatim>\<open>Number.parseFloat(totalAmount) || 0\<close> over those orders;
  \<^item> \<^verbatim>\<open>totalAmount\<close> is a string with exactly two decimal digits when there is no such
    order or the sum is finite and below \<open>10\<^sup>2\<^sup>1\<close> in magnitude.
\<close>

theorem customer_rows:
  assumes "list_all plain_key (customer_keys customers)"
    and "\<not> polluted (fst (customersData ops rt customers orders))"
    and "i < length customers"
  shows "\<exists>rows. snd (customersData ops rt customers orders) = Inr rows
    \<and> length rows = length customers
    \<and> c_id (rows ! i) = doc_id (customers ! i)
    \<and> c_userId (rows ! i) = cud_userId (doc_data (customers ! i))
    \<and> c_orderCount (rows ! i)
        = length (orders_under (property_key (cud_userId (doc_data (customers ! i)))) orders)
    \<and> c_totalAmount (rows ! i)
        = (let matching = orders_under (property_key (cud_userId (doc_data (customers ! i)))) orders in
           if matching = [] then ''0.00''
           else (let s = toFixed2 ops (running_total ops (Number (num_zero ops)) matching)
                 in if s \<noteq> [] then s else ''0.00''))
    \<and> ((orders_under (property_key (cud_userId (doc_data (customers ! i)))) orders = []
          \<or> (\<exists>x. running_total ops (Number (num_zero ops))
                     (orders_under (property_key (cud_userId (doc_data (customers ! i)))) orders) = Number x
                 \<and> fixed_notation ops x))
         \<longrightarrow> two_decimals (c_totalAmount (rows ! i)))
    \<and> (\<forall>u. cud_userId (doc_data (customers ! i)) = Str u \<longrightarrow>
          orders_under (property_key (cud_userId (doc_data (customers ! i)))) orders
            = (if u \<noteq> [] then orders_with_userId (Str u) orders else []))"
proof -
  let ?k = "property_key (cud_userId (doc_data (customers ! i)))"
  let ?rt = "fst (customerOrders_of ops rt orders)"
  let ?rows = "map (\<lambda>d. customer_with d
                  (plain_total ops ?rt orders (property_key (cud_userId (doc_data d))))
                  (length (orders_under (property_key (cud_userId (doc_data d))) orders)))
            customers"
  have rows: "snd (customersData ops rt customers orders) = Inr ?rows"
    using assms(1) by (rule customersData_plain)
  from assms(2) have np: "\<not> polluted ?rt"
    by (simp add: customersData_def Let_def)
  have t: "c_totalAmount (?rows ! i)
        = (let matching = orders_under ?k orders in
           if matching = [] then ''0.00''
           else (let s = toFixed2 ops (running_total ops (Number (num_zero ops)) matching)
                 in if s \<noteq> [] then s else ''0.00''))"
    using assms(3) np by (simp add: customer_with_def plain_total_def Let_def)
  have two: "two_decimals (c_totalAmount (?rows ! i))"
    if "orders_under ?k orders = []
          \<or> (\<exists>x. running_total ops (Number (num_zero ops)) (orders_under ?k orders) = Number x
                 \<and> fixed_notation ops x)"
  proof (cases "orders_under ?k orders = []")
    case True
    with t show ?thesis by (simp add: two_decimals_def is_digit_def)
  next
    case False
    with that obtain x where x: "running_total ops (Number (num_zero ops)) (orders_under ?k orders) = Number x"
      and f: "fixed_notation ops x"
      by auto
    from f have "toFixed2 ops (Number x) \<noteq> []" by (rule toFixed2_fixed_nonempty)
    with t False x have "c_totalAmount (?rows ! i) = toFixed2 ops (Number x)"
      by (simp add: Let_def)
    with f show ?thesis by (simp only: two_decimals_toFixed2)
  qed
  have "c_id (?rows ! i) = doc_id (customers ! i)"
    and "c_userId (?rows ! i) = cud_userId (doc_data (customers ! i))"
    and "c_orderCount (?rows ! i) = length (orders_under ?k orders)"
    using assms(3) by (simp_all add: customer_with_def Let_def)
  moreover have "\<forall>u. cud_userId (doc_data (customers ! i)) = Str u \<longrightarrow>
          orders_under ?k orders = (if u \<noteq> [] then orders_with_userId (Str u) orders else [])"
    using orders_under_string by auto
  moreover have "length ?rows = length customers" by simp
  ultimately show ?thesis
    using rows t two by blast
qed

theorem customer_rows_witness:
  "list_all plain_key (customer_keys sample_customers)
   \<and> \<not> polluted (fst (customersData whole_ops {} sample_customers sample_orders))
   \<and> (0::nat) < length sample_customers
   \<and> cud_userId (doc_data (sample_customers ! 0)) = Str ''u1''
   \<and> snd (customersData whole_ops {} sample_customers sample_orders)
       = Inr [customer_with (customer_of ''c1'' (Str ''u1'')) ''15.00'' 3,
              customer_with (customer_of ''c2'' (Str ''u2'')) ''0.00'' 0]
   \<and> length (orders_with_userId (Str ''u1'') sample_orders) = 3
   \<and> two_decimals ''15.00''"
proof -
  have h: "(0::nat) < length sample_customers"
    by (simp add: sample_rows)
  show ?thesis
    using h customer_rows [OF sample_rows(1) sample_rows(2) h]
    by (simp add: sample_rows)
qed

lemma sum_orders_under_Cons:
  "sum_list (map (\<lambda>k. length (orders_under k (d # orders))) ks) =
   (if truthy (od_userId (doc_data d))
    then length (filter (\<lambda>k. k = property_key (od_userId (doc_data d))) ks) else 0)
   + sum_list (map (\<lambda>k. length (orders_under k orders)) ks)"
  by (induction ks) (auto simp: orders_under_def)

lemma keys_of_strings:
  "list_all is_string us \<Longrightarrow>
   length (filter (\<lambda>k. k = s) (map property_key us)) = length (filter (\<lambda>u. u = Str s) us)"
proof (induction us)
  case Nil
  then show ?case by simp
next
  case (Cons u us)
  then show ?case by (cases u) auto
qed

lemma sum_orders_under_matched:
  assumes "list_all (\<lambda>d. truthy (od_userId (doc_data d))
                        \<and> length (filter (\<lambda>k. k = property_key (od_userId (doc_data d))) ks) = 1) orders"
  shows "sum_list (map (\<lambda>k. length (orders_under k orders)) ks) = length orders"
  using assms
proof (induction orders)
  case Nil
  then show ?case by (simp add: orders_under_def)
next
  case (Cons d orders)
  then show ?case
    by (simp add: sum_orders_under_Cons)
qed

lemma sample_matched:
  "matches_exactly_one duplicate_customers matched_orders"
  "list_all truthy (order_userIds matched_orders)"
  "list_all is_string (customer_userIds duplicate_customers)"
  "list_all plain_key (customer_keys duplicate_customers)"
  "snd (customersData whole_ops {} duplicate_customers matched_orders)
     = Inr [customer_with (customer_of ''c1'' (Str ''u1'')) ''10.00'' 2,
            customer_with (customer_of ''c2'' (Str ''u2'')) ''0.00'' 0,
            customer_with (customer_of ''c3'' (Str ''u2'')) ''0.00'' 0]"
  "length (orders_of_customers duplicate_customers matched_orders) = 2"
  by code_simp+

text \<open>
  Claim C2, as stated, fails even under the data-model invariant. With one customer and one
  order that both have the \<^verbatim>\<open>userId\<close> \<^verbatim>\<open>""\<close>, the order matches exactly one customer and
  is counted on the right-hand side, but the guard \<^verbatim>\<open>if (order.userId)\<close> skips it: the sum
  of the \<^verbatim>\<open>orderCount\<close>s is 0. With a customer without \<^verbatim>\<open>userId\<close>, a customer whose
  \<^verbatim>\<open>userId\<close> is the string \<^verbatim>\<open>"undefined"\<close> and one order of the latter, the order matches
  exactly one customer, but both customers are looked up under the key \<^verbatim>\<open>undefined\<close>: the
  sum of the \<^verbatim>\<open>orderCount\<close>s is 2.
\<close>

theorem orderCount_sum_counterexample:
  "matches_exactly_one [customer_of ''c1'' (Str '''')] [order_of ''o1'' (Str '''') (Str ''5'')]
   \<and> snd (customersData whole_ops {} [customer_of ''c1'' (Str '''')] [order_of ''o1'' (Str '''') (Str ''5'')])
       = Inr [customer_with (customer_of ''c1'' (Str '''')) ''0.00'' 0]
   \<and> length (orders_of_customers [customer_of ''c1'' (Str '''')] [order_of ''o1'' (Str '''') (Str ''5'')]) = 1
   \<and> matches_exactly_one [customer_of ''c1'' Undefined, customer_of ''c2'' (Str ''undefined'')]
        [order_of ''o1'' (Str ''undefined'') (Str ''5'')]
   \<and> snd (customersData whole_ops {} [customer_of ''c1'' Undefined, customer_of ''c2'' (Str ''undefined'')]
             [order_of ''o1'' (Str ''undefined'') (Str ''5'')])
       = Inr [customer_with (customer_of ''c1'' Undefined) ''5.00'' 1,
              customer_with (customer_of ''c2'' (Str ''undefined'')) ''5.00'' 1]
   \<and> length (orders_of_customers [customer_of ''c1'' Undefined, customer_of ''c2'' (Str ''undefined'')]
        [order_of ''o1'' (Str ''undefined'') (Str ''5'')]) = 1"
  by code_simp

text \<open>
  Claim C2, amended. Let every order's \<^verbatim>\<open>userId\<close> match the \<^verbatim>\<open>userId\<close> of exactly one
  customer (the data-model invariant), let every order's \<^verbatim>\<open>userId\<close> be truthy, let every
  customer's \<^verbatim>\<open>userId\<close> be a string, and let no customer's \<^verbatim>\<open>userId\<close> name a property
  inherited from \<^verbatim>\<open>Object.prototype\<close>. Then the aggregation returns rows, and the sum of
  their \<^verbatim>\<open>orderCount\<close>s equals the number of orders whose \<^verbatim>\<open>userId\<close> is the \<^verbatim>\<open>userId\<close> of a
  customer.
\<close>

theorem orderCount_sum:
  assumes "matches_exactly_one customers orders"
    and "list_all truthy (order_userIds orders)"
    and "list_all is_string (customer_userIds customers)"
    and "list_all plain_key (customer_keys customers)"
  shows "\<exists>rows. snd (customersData ops rt customers orders) = Inr rows
    \<and> sum_list (map c_orderCount rows) = length (orders_of_customers customers orders)"
proof -
  let ?rows = "map (\<lambda>d. customer_with d
                  (plain_total ops (fst (customerOrders_of ops rt orders)) orders
                     (property_key (cud_userId (doc_data d))))
                  (length (orders_under (property_key (cud_userId (doc_data d))) orders)))
            customers"
  have rows: "snd (customersData ops rt customers orders) = Inr ?rows"
    using assms(4) by (rule customersData_plain)
  have ck: "customer_keys customers = map property_key (customer_userIds customers)"
    by (simp add: customer_keys_def customer_userIds_def)
  have counts: "map c_orderCount ?rows
        = map (\<lambda>k. length (orders_under k orders)) (customer_keys customers)"
    by (simp add: customer_with_def Let_def customer_keys_def comp_def)
  have one: "truthy (od_userId (doc_data d))
             \<and> length (filter (\<lambda>u. u = od_userId (doc_data d)) (customer_userIds customers)) = 1"
    if "d \<in> set orders" for d
    using assms(1,2) that by (simp add: matches_exactly_one_def order_userIds_def list_all_iff)
  have "truthy (od_userId (doc_data d))
        \<and> length (filter (\<lambda>k. k = property_key (od_userId (doc_data d))) (customer_keys customers)) = 1"
    if "d \<in> set orders" for d
  proof -
    from one [OF that] obtain s where s: "od_userId (doc_data d) = Str s"
      by (cases "od_userId (doc_data d)") auto
    have "length (filter (\<lambda>k. k = s) (map property_key (customer_userIds customers)))
          = length (filter (\<lambda>u. u = Str s) (customer_userIds customers))"
      using assms(3) by (rule keys_of_strings)
    with one [OF that] s show ?thesis
      by (simp only: ck property_key.simps)
  qed
  then have "list_all (\<lambda>d. truthy (od_userId (doc_data d))
               \<and> length (filter (\<lambda>k. k = property_key (od_userId (doc_data d))) (customer_keys customers)) = 1)
             orders"
    by (simp add: list_all_iff)
  then have "sum_list (map (\<lambda>k. length (orders_under k orders)) (customer_keys customers)) = length orders"
    by (rule sum_orders_under_matched)
  with counts have sum: "sum_list (map c_orderCount ?rows) = length orders"
    by (simp only:)
  have "od_userId (doc_data d) \<in> set (customer_userIds customers)" if "d \<in> set orders" for d
  proof -
    from one [OF that] have "filter (\<lambda>u. u = od_userId (doc_data d)) (customer_userIds customers) \<noteq> []"
      by auto
    then show ?thesis
      by (auto simp: filter_empty_conv)
  qed
  then have "orders_of_customers customers orders = orders"
    by (simp add: orders_of_customers_def)
  with rows sum show ?thesis by simp
qed

theorem orderCount_sum_witness:
  "matches_exactly_one duplicate_customers matched_orders
   \<and> list_all truthy (order_userIds matched_orders)
   \<and> list_all is_string (customer_userIds duplicate_customers)
   \<and> list_all plain_key (customer_keys duplicate_customers)
   \<and> snd (customersData whole_ops {} duplicate_customers matched_orders)
       = Inr [customer_with (customer_of ''c1'' (Str ''u1'')) ''10.00'' 2,
              customer_with (customer_of ''c2'' (Str ''u2'')) ''0.00'' 0,
              customer_with (customer_of ''c3'' (Str ''u2'')) ''0.00'' 0]
   \<and> length (orders_of_customers duplicate_customers matched_orders) = 2"
  using orderCount_sum [OF sample_matched(1) sample_matched(2) sample_matched(3) sample_matched(4),
      of whole_ops "{}"]
    sample_matched
  by simp

lemma order_amount_malformed:
  "\<not> js_truthy ops (parseFloat ops (od_totalAmount order)) \<Longrightarrow>
   order_amount ops order = Number (num_zero ops)"
  by (simp add: order_amount_def)

text \<open>
  Claim C8 has the aggregation total, with no error path. A malformed \<^verbatim>\<open>totalAmount\<close> does
  add 0, and for customers whose \<^verbatim>\<open>userId\<close> names nothing inherited the aggregation
  returns rows (\<open>order_amount_malformed\<close>, \<open>customersData_plain\<close>). But \<^verbatim>\<open>customerOrders\<close>
  is a plain object: with one customer whose \<^verbatim>\<open>userId\<close> is \<^verbatim>\<open>"constructor"\<close> and one order
  of another user whose \<^verbatim>\<open>totalAmount\<close> is \<^verbatim>\<open>"abc"\<close>, the lookup
  \<^verbatim>\<open>customerOrders[userId]\<close> finds the inherited function \<^verbatim>\<open>Object\<close>, its \<^verbatim>\<open>total\<close> is
  \<^verbatim>\<open>undefined\<close> and \<^verbatim>\<open>toFixed\<close> throws a TypeError. Both reads having succeeded, the fetch
  ends in the \<^verbatim>\<open>catch\<close> block: the notice \<^verbatim>\<open>Failed to load customers\<close> is raised and no row
  is shown.
\<close>

theorem fetchCustomers_inherited_userId:
  "snd (customersData whole_ops {} [customer_of ''c1'' (Str ''constructor'')]
          [order_of ''o1'' (Str ''u1'') (Str ''abc'')]) = Inl TypeError
   \<and> snd (fetchCustomers whole_ops {} (Inr [customer_of ''c1'' (Str ''constructor'')])
            (Inr [order_of ''o1'' (Str ''u1'') (Str ''abc'')]) initial_table)
       = Inr (fetch_failed ''Failed to load customers'' initial_table)
   \<and> t_rows (fetch_failed ''Failed to load customers'' (initial_table :: customer table)) = []
   \<and> t_toasts (fetch_failed ''Failed to load customers'' (initial_table :: customer table))
       = [\<lparr> toast_title = ''Error'', toast_description = ''Failed to load customers'',
             toast_destructive = True \<rparr>]"
  by code_simp

section \<open>Properties of the category product-count aggregator\<close>

lemma count_product_other:
  "\<not> (truthy (pd_categoryId (doc_data d)) \<and> property_key (pd_categoryId (doc_data d)) = k) \<Longrightarrow>
   count_product m d k = m k"
  by (auto simp: count_product_def Let_def)

lemma count_product_same:
  assumes "truthy (pd_categoryId (doc_data d))" and "property_key (pd_categoryId (doc_data d)) = k"
    and "plain_key k"
  shows "count_product m d k = Some (plus_one (productCounts_or_zero m k))"
proof -
  from assms(3) have "k \<noteq> ''__proto__''"
    by (auto simp: plain_key_def inherited_names_def)
  with assms(1,2) show ?thesis
    by (simp add: count_product_def Let_def)
qed

lemma or_zero_Some: "productCounts_or_zero m k = v \<Longrightarrow> m' k = Some (plus_one v) \<Longrightarrow>
  productCounts_or_zero m' k = plus_one v"
  by (cases v) (auto simp: productCounts_or_zero_def)

lemma or_zero_cong: "m' k = m k \<Longrightarrow> productCounts_or_zero m' k = productCounts_or_zero m k"
  by (simp add: productCounts_or_zero_def)

lemma foldl_count_product:
  assumes "plain_key k"
  shows "productCounts_or_zero (foldl count_product m products) k =
     (plus_one ^^ length (filter (\<lambda>d. truthy (pd_categoryId (doc_data d))
                           \<and> property_key (pd_categoryId (doc_data d)) = k) products))
       (productCounts_or_zero m k)"
proof (induction products arbitrary: m)
  case Nil
  then show ?case by simp
next
  case (Cons d products)
  show ?case
  proof (cases "truthy (pd_categoryId (doc_data d)) \<and> property_key (pd_categoryId (doc_data d)) = k")
    case True
    with assms have "count_product m d k = Some (plus_one (productCounts_or_zero m k))"
      by (simp add: count_product_same)
    then have "productCounts_or_zero (count_product m d) k = plus_one (productCounts_or_zero m k)"
      by (rule or_zero_Some [OF refl])
    with True show ?thesis
      by (simp add: Cons.IH funpow_swap1)
  next
    case False
    then have "count_product m d k = m k"
      by (rule count_product_other)
    then have "productCounts_or_zero (count_product m d) k = productCounts_or_zero m k"
      by (rule or_zero_cong)
    with False show ?thesis
      by (auto simp: Cons.IH)
  qed
qed

lemma plus_one_funpow: "(plus_one ^^ n) (Count c) = Count (c + n)"
  by (induction n) auto

lemma key_eq_nonempty:
  "k \<noteq> [] \<Longrightarrow> (truthy v \<and> property_key v = k) = (v = Str k)"
  by (cases v) auto

lemma category_row_productCount_id:
  assumes "doc_id d \<noteq> []" and "plain_key (doc_id d)"
  shows "cat_productCount (category_row (productCounts_of products) d) =
     Count (length (products_with_categoryId (Str (doc_id d)) products))"
proof -
  from assms(2) have "productCounts_or_zero Map.empty (doc_id d) = Count 0"
    by (simp add: productCounts_or_zero_def plain_key_def)
  with foldl_count_product [OF assms(2), of Map.empty products] assms(1) show ?thesis
    by (simp add: category_row_def productCounts_of_def plus_one_funpow key_eq_nonempty
        products_with_categoryId_def)
qed

lemma productCounts_of_has_categoryId:
  "productCounts_of (filter has_categoryId products) = productCounts_of products"
proof -
  have "foldl count_product m (filter has_categoryId products) = foldl count_product m products" for m
  proof (induction products arbitrary: m)
    case Nil
    then show ?case by simp
  next
    case (Cons d products)
    show ?case
    proof (cases "has_categoryId d")
      case True
      with Cons show ?thesis by simp
    next
      case False
      then have "\<not> truthy (pd_categoryId (doc_data d))"
        by (auto simp: has_categoryId_def)
      then have "count_product m d = m"
        by (simp add: count_product_def)
      with False Cons show ?thesis by simp
    qed
  qed
  then show ?thesis by (simp add: productCounts_of_def)
qed

lemma categoriesData_length: "length (categoriesData products cats) = length cats"
  by (simp add: categoriesData_def)

lemma categoriesData_nth:
  "i < length cats \<Longrightarrow>
   categoriesData products cats ! i = category_row (productCounts_of products) (cats ! i)"
  by (simp add: categoriesData_def)

lemma category_rows_plain:
  assumes "i < length cats" and "doc_id (cats ! i) \<noteq> []" and "plain_key (doc_id (cats ! i))"
  shows "length (categoriesData products cats) = length cats
    \<and> cat_id (categoriesData products cats ! i) = doc_id (cats ! i)
    \<and> cat_name (categoriesData products cats ! i) = cd_name (doc_data (cats ! i))
    \<and> cat_productCount (categoriesData products cats ! i)
        = Count (length (products_with_categoryId (Str (doc_id (cats ! i))) products))
    \<and> categoriesData (filter has_categoryId products) cats = categoriesData products cats"
proof -
  have n: "cat_productCount (categoriesData products cats ! i)
        = Count (length (products_with_categoryId (Str (doc_id (cats ! i))) products))"
    using assms by (simp add: categoriesData_nth category_row_productCount_id)
  have "cat_id (categoriesData products cats ! i) = doc_id (cats ! i)"
    and "cat_name (categoriesData products cats ! i) = cd_name (doc_data (cats ! i))"
    using assms(1) by (simp_all add: categoriesData_nth category_row_def)
  moreover have "categoriesData (filter has_categoryId products) cats = categoriesData products cats"
    by (simp add: categoriesData_def productCounts_of_has_categoryId)
  ultimately show ?thesis
    using n by (simp add: categoriesData_length)
qed

text \<open>
  Claim C5 makes \<^verbatim>\<open>productCount\<close> the number of products whose \<^verbatim>\<open>categoryId\<close> equals
  the category's id, and 0 when there is none. For a category whose id names nothing
  inherited from \<^verbatim>\<open>Object.prototype\<close> this is what \<^verbatim>\<open>fetchCategories\<close> computes
  (\<open>category_rows_plain\<close>). But \<^verbatim>\<open>productCounts\<close> is a plain object: for the category
  with document id \<^verbatim>\<open>constructor\<close> and one product in it, \<^verbatim>\<open>productCounts[categoryId] || 0\<close>
  reads the inherited function \<^verbatim>\<open>Object\<close>, \<^verbatim>\<open>+ 1\<close> makes a string of it, and the row's
  \<^verbatim>\<open>productCount\<close> is that string, not 1; with no product at all the row's
  \<^verbatim>\<open>productCount\<close> is the inherited function, not 0.
\<close>

theorem category_rows_inherited_id:
  "categoriesData prototype_products prototype_categories
     = [\<lparr> cat_id = ''constructor'', cat_name = Str ''Books'', cat_productCount = NonNumber \<rparr>]
   \<and> length (products_with_categoryId (Str ''constructor'') prototype_products) = 1
   \<and> categoriesData [] prototype_categories
     = [\<lparr> cat_id = ''constructor'', cat_name = Str ''Books'', cat_productCount = NonNumber \<rparr>]"
  by code_simp

section \<open>The guard of category deletion\<close>

lemma categoriesData_member_count:
  assumes "c \<in> set (categoriesData products cats)" and "cat_id c \<noteq> []" and "plain_key (cat_id c)"
  shows "cat_productCount c = Count (length (products_with_categoryId (Str (cat_id c)) products))"
proof -
  from assms(1) obtain d where d: "c = category_row (productCounts_of products) d"
    by (auto simp: categoriesData_def)
  then have "cat_id c = doc_id d" by (simp add: category_row_def)
  with assms(2,3) d show ?thesis
    by (simp add: category_row_productCount_id)
qed

lemma find_guarded_row:
  assumes "set rows \<subseteq> set (categoriesData products cats)" and "d \<in> cat_id ` set rows"
    and "d \<noteq> []" and "plain_key d"
  shows "\<exists>c. find (\<lambda>c. cat_id c = d) rows = Some c
             \<and> cat_productCount c = Count (length (products_with_categoryId (Str d) products))"
proof -
  from assms(2) obtain c where c: "find (\<lambda>c. cat_id c = d) rows = Some c"
    by (cases "find (\<lambda>c. cat_id c = d) rows") (auto simp: find_None_iff)
  then have "c \<in> set rows" and "cat_id c = d"
    by (auto simp: find_Some_iff)
  with assms(1,3,4) have "cat_productCount c = Count (length (products_with_categoryId (Str d) products))"
    using categoriesData_member_count [of c products cats] by auto
  with c show ?thesis by simp
qed

lemma st_calls_deleted_from_store:
  "st_calls (deleted_from_store coll i st) = st_calls st"
  by (simp add: deleted_from_store_def)

lemma fst_delete_category:
  "fst (delete_category ok d st t) =
     (if ok then deleted_from_store ''categories'' d (issue_deleteDoc ''categories'' d st)
      else issue_deleteDoc ''categories'' d st)"
  by (simp add: delete_category_def Let_def)

lemma category_delete_guard_plain:
  assumes "t_deleteId t = Str d" and "d \<noteq> []" and "plain_key d"
    and "set (t_rows t) \<subseteq> set (categoriesData products cats)"
    and "d \<in> cat_id ` set (t_rows t)"
  shows "(0 < length (products_with_categoryId (Str d) products) \<longrightarrow>
            fst (handleDeleteCategory ok (st, t)) = st
          \<and> (\<exists>t'. snd (handleDeleteCategory ok (st, t)) = Inr t'
                 \<and> t_rows t' = t_rows t \<and> t_filtered t' = t_filtered t
                 \<and> t_searchQuery t' = t_searchQuery t
                 \<and> t_toasts t' = t_toasts t @
                      [\<lparr> toast_title = ''Cannot delete category'',
                         toast_description = ''This category has ''
                           @ string_of_nat (length (products_with_categoryId (Str d) products))
                           @ '' products. Remove the products first.'',
                         toast_destructive = True \<rparr>]))
    \<and> (length (products_with_categoryId (Str d) products) = 0 \<longrightarrow>
          fst (handleDeleteCategory ok (st, t)) =
            (if ok then deleted_from_store ''categories'' d (issue_deleteDoc ''categories'' d st)
             else issue_deleteDoc ''categories'' d st))
    \<and> ((st_calls (fst (handleDeleteCategory ok (st, t))) = st_calls st @ [DeleteDoc ''categories'' d])
         = (length (products_with_categoryId (Str d) products) = 0))"
proof -
  from assms(2-5) obtain c where c: "find (\<lambda>c. cat_id c = d) (t_rows t) = Some c"
    and n: "cat_productCount c = Count (length (products_with_categoryId (Str d) products))"
    using find_guarded_row by blast
  show ?thesis
  proof (cases "length (products_with_categoryId (Str d) products) = 0")
    case True
    with assms(1,2) c n have "handleDeleteCategory ok (st, t) = delete_category ok d st t"
      by (simp add: handleDeleteCategory_def)
    with True show ?thesis
      by (simp add: fst_delete_category st_calls_deleted_from_store issue_deleteDoc_def)
  next
    case False
    with assms(1,2) c n have "handleDeleteCategory ok (st, t) =
        (st, Inr ((notify ''Cannot delete category''
                    (''This category has ''
                       @ string_of_nat (length (products_with_categoryId (Str d) products))
                       @ '' products. Remove the products first.'') True t)
                  \<lparr> t_deleteId := Null \<rparr>))"
      by (simp add: handleDeleteCategory_def)
    with False show ?thesis
      by (simp add: notify_def)
  qed
qed

text \<open>
  Claim C4 has the delete aborted, before the destructive call, for every category whose
  derived product count is greater than 0. For a category whose id names nothing inherited
  from \<^verbatim>\<open>Object.prototype\<close> the guard of \<^verbatim>\<open>handleDeleteCategory\<close> does so
  (\<open>category_delete_guard_plain\<close>). But for the category with document id
  \<^verbatim>\<open>constructor\<close>, which has one product, the row's \<^verbatim>\<open>productCount\<close> is a string, the
  comparison \<^verbatim>\<open>category.productCount > 0\<close> is false, and the handler issues
  \<^verbatim>\<open>deleteDoc\<close>: the category is gone from the store and from both row lists while a
  product still refers to it.
\<close>

theorem category_delete_inherited_id:
  "t_rows prototype_categories_table
     = [\<lparr> cat_id = ''constructor'', cat_name = Str ''Books'', cat_productCount = NonNumber \<rparr>]
   \<and> t_deleteId prototype_categories_table = Str ''constructor''
   \<and> length (products_with_categoryId (Str ''constructor'') prototype_products) = 1
   \<and> st_calls (fst (handleDeleteCategory True (prototype_store, prototype_categories_table)))
       = [DeleteDoc ''categories'' ''constructor'']
   \<and> st_categories (fst (handleDeleteCategory True (prototype_store, prototype_categories_table))) = []
   \<and> outcome_lists (snd (handleDeleteCategory True (prototype_store, prototype_categories_table)))
       = Inr ([], [])"
  by code_simp

section \<open>Properties of the substring search filter\<close>

lemma filter_js_Inr_iff:
  "filter_js p xs = Inr ys \<longleftrightarrow>
     (\<forall>x\<in>set xs. \<exists>b. p x = Inr b) \<and> ys = filter (\<lambda>x. p x = Inr True) xs"
proof (induction xs arbitrary: ys)
  case Nil
  then show ?case by auto
next
  case (Cons x xs)
  show ?case
  proof (cases "p x")
    case (Inl e)
    then show ?thesis by auto
  next
    case (Inr b)
    show ?thesis
    proof (cases "filter_js p xs")
      case (Inl e)
      with Cons.IH have "\<not> (\<forall>x\<in>set xs. \<exists>b. p x = Inr b)"
        by auto
      with Inl Inr show ?thesis by auto
    next
      case r: (Inr zs)
      with Cons.IH [of zs] have "(\<forall>x\<in>set xs. \<exists>b. p x = Inr b)"
        and "zs = filter (\<lambda>x. p x = Inr True) xs"
        by auto
      with Inr r show ?thesis by auto
    qed
  qed
qed

lemma filter_js_total:
  "(\<forall>x\<in>set xs. \<exists>b. p x = Inr b) \<Longrightarrow> filter_js p xs = Inr (filter (\<lambda>x. p x = Inr True) xs)"
  by (simp add: filter_js_Inr_iff)

lemma filter_js_throws:
  "x \<in> set xs \<Longrightarrow> p x = Inl e \<Longrightarrow> \<exists>e'. filter_js p xs = Inl e'"
  by (cases "filter_js p xs") (auto simp: filter_js_Inr_iff)

lemma filter_js_error_from:
  "filter_js p xs = Inl e \<Longrightarrow> \<exists>x\<in>set xs. p x = Inl e"
  by (induction xs) (auto split: sum.splits)

lemma filter_js_idem:
  assumes "filter_js p xs = Inr ys"
  shows "filter_js p ys = Inr ys"
proof -
  from assms have a: "\<forall>x\<in>set xs. \<exists>b. p x = Inr b" and ys: "ys = filter (\<lambda>x. p x = Inr True) xs"
    by (simp_all add: filter_js_Inr_iff)
  from a ys have "\<forall>x\<in>set ys. \<exists>b. p x = Inr b" by auto
  then have "filter_js p ys = Inr (filter (\<lambda>x. p x = Inr True) ys)"
    by (rule filter_js_total)
  with ys show ?thesis by simp
qed

lemma substring_filter_idem:
  "substring_filter matches q rows = Inr rows' \<Longrightarrow> substring_filter matches q rows' = Inr rows'"
  by (auto simp: substring_filter_def filter_js_idem split: if_splits)

lemma substring_filter_empty: "substring_filter matches [] rows = Inr rows"
  by (simp add: substring_filter_def)

lemma substring_filter_subseq:
  "substring_filter matches q rows = Inr rows' \<Longrightarrow> subseq rows' rows"
  by (auto simp: substring_filter_def filter_js_Inr_iff split: if_splits)

lemma sample_filters:
  "substring_filter customer_matches ''U1'' sample_customer_rows = Inr [sample_customer_rows ! 0]"
  "substring_filter customer_matches ''U1'' [sample_customer_rows ! 0] = Inr [sample_customer_rows ! 0]"
  "substring_filter category_matches ''oo'' (categoriesData sample_products sample_categories)
     = Inr [categoriesData sample_products sample_categories ! 0]"
  "substring_filter category_matches ''oo'' [categoriesData sample_products sample_categories ! 0]
     = Inr [categoriesData sample_products sample_categories ! 0]"
  "substring_filter product_matches ''BOOK'' sample_described_rows = Inr [sample_described_rows ! 0]"
  "substring_filter product_matches ''BOOK'' [sample_described_rows ! 0] = Inr [sample_described_rows ! 0]"
  "substring_filter product_matches ''toy'' sample_product_rows = Inl TypeError"
  "substring_filter product_matches ''ball'' sample_product_rows = Inr [sample_product_rows ! 2]"
  "products_searchable sample_described_rows"
  "sample_product_rows ! 2 \<in> set sample_product_rows"
  "\<not> is_string (p_description (sample_product_rows ! 2))"
  "p_categoryName (sample_described_rows ! 1) = Str ''Uncategorized''"
  by code_simp+

text \<open>
  Claim C6. In each table the substring filter is idempotent: when filtering a row list
  by a query gives a list, filtering that list by the same query gives it again. Filtering
  by the empty string returns the row list itself, rows and order unchanged.
\<close>

theorem substring_filter_idempotent:
  "(substring_filter customer_matches q customers = Inr customers'
      \<longrightarrow> substring_filter customer_matches q customers' = Inr customers')
   \<and> (substring_filter category_matches q categories = Inr categories'
      \<longrightarrow> substring_filter category_matches q categories' = Inr categories')
   \<and> (substring_filter product_matches q products = Inr products'
      \<longrightarrow> substring_filter product_matches q products' = Inr products')
   \<and> substring_filter customer_matches [] customers = Inr customers
   \<and> substring_filter category_matches [] categories = Inr categories
   \<and> substring_filter product_matches [] products = Inr products"
  by (simp add: substring_filter_idem substring_filter_empty)

theorem substring_filter_idempotent_witness:
  "substring_filter customer_matches ''U1'' sample_customer_rows = Inr [sample_customer_rows ! 0]
   \<and> substring_filter customer_matches ''U1'' [sample_customer_rows ! 0] = Inr [sample_customer_rows ! 0]
   \<and> substring_filter category_matches ''oo'' (categoriesData sample_products sample_categories)
        = Inr [categoriesData sample_products sample_categories ! 0]
   \<and> substring_filter category_matches ''oo'' [categoriesData sample_products sample_categories ! 0]
        = Inr [categoriesData sample_products sample_categories ! 0]
   \<and> substring_filter product_matches ''BOOK'' sample_described_rows = Inr [sample_described_rows ! 0]
   \<and> substring_filter product_matches ''BOOK'' [sample_described_rows ! 0] = Inr [sample_described_rows ! 0]"
  using substring_filter_idempotent [where q = "''U1''" and customers = sample_customer_rows
      and customers' = "[sample_customer_rows ! 0]"]
    substring_filter_idempotent [where q = "''oo''"
      and categories = "categoriesData sample_products sample_categories"
      and categories' = "[categoriesData sample_products sample_categories ! 0]"]
    substring_filter_idempotent [where q = "''BOOK''" and products = sample_described_rows
      and products' = "[sample_described_rows ! 0]"]
    sample_filters(1,3,5)
  by simp

lemma includes_js_length: "includes_js s q \<Longrightarrow> length q \<le> length s"
  by (induction s) (auto dest: prefix_length_le)

lemma lower_includes_longer:
  "lower_includes (Str n) (replicate (Suc (length n)) CHR ''a'') = Inr False"
proof -
  have "\<not> includes_js (toLowerCase n) (toLowerCase (replicate (Suc (length n)) CHR ''a''))"
    using includes_js_length [of "toLowerCase n" "toLowerCase (replicate (Suc (length n)) CHR ''a'')"]
    by (auto simp: toLowerCase_def)
  then show ?thesis by (simp add: lower_includes_def)
qed

lemma lower_includes_not_string: "\<not> is_string v \<Longrightarrow> lower_includes v q = Inl TypeError"
  by (cases v) (auto simp: lower_includes_def)

lemma lower_includes_string: "is_string v \<Longrightarrow> \<exists>b. lower_includes v q = Inr b"
  by (cases v) (auto simp: lower_includes_def)

lemma product_matches_error: "product_matches q p = Inl e \<Longrightarrow> e = TypeError"
  by (auto simp: product_matches_def lower_includes_def split: sum.splits field.splits if_splits)

lemma product_matches_no_description:
  assumes "\<not> is_string (p_description p)"
  shows "\<exists>q. q \<noteq> [] \<and> product_matches q p = Inl TypeError"
proof (cases "p_name p")
  case (Str n)
  have "product_matches (replicate (Suc (length n)) CHR ''a'') p = Inl TypeError"
    using assms Str
    by (simp add: product_matches_def lower_includes_longer lower_includes_not_string
        del: replicate.simps)
  then show ?thesis by (intro exI [of _ "replicate (Suc (length n)) CHR ''a''"]) simp
next
  case Null
  then have "product_matches ''a'' p = Inl TypeError"
    by (simp add: product_matches_def lower_includes_def)
  then show ?thesis by (intro exI [of _ "''a''"]) simp
next
  case Undefined
  then have "product_matches ''a'' p = Inl TypeError"
    by (simp add: product_matches_def lower_includes_def)
  then show ?thesis by (intro exI [of _ "''a''"]) simp
qed

lemma product_matches_searchable:
  "is_string (p_name p) \<Longrightarrow> is_string (p_description p) \<Longrightarrow> \<exists>b. product_matches q p = Inr b"
  by (cases "p_name p"; cases "p_description p"; cases "p_categoryName p")
     (auto simp: product_matches_def lower_includes_def)

lemma products_searchable_total:
  "products_searchable rows \<Longrightarrow> \<exists>ys. substring_filter product_matches q rows = Inr ys"
proof -
  assume "products_searchable rows"
  then have "\<forall>p\<in>set rows. \<exists>b. product_matches q p = Inr b"
    by (auto simp: products_searchable_def list_all_iff intro: product_matches_searchable)
  then have "filter_js (product_matches q) rows = Inr (filter (\<lambda>p. product_matches q p = Inr True) rows)"
    by (rule filter_js_total)
  then show ?thesis
    by (simp add: substring_filter_def)
qed

text \<open>
  Claim C10. The products filter reads \<^verbatim>\<open>product.description\<close> without a guard: for
  every row list with a row whose description is not a string there is a non-empty query
  on which the filter throws a TypeError instead of returning rows. When every row
  carries a string name and a string description the filter returns a subsequence of the
  rows for every query, whatever the category names are (they are read through \<^verbatim>\<open>?.\<close>).
\<close>

theorem product_filter_needs_description:
  "(p \<in> set rows \<and> \<not> is_string (p_description p)
      \<longrightarrow> (\<exists>q. q \<noteq> [] \<and> substring_filter product_matches q rows = Inl TypeError))
   \<and> (products_searchable rows
      \<longrightarrow> (\<exists>ys. substring_filter product_matches q' rows = Inr ys \<and> subseq ys rows))"
proof (intro conjI impI)
  assume a: "p \<in> set rows \<and> \<not> is_string (p_description p)"
  then obtain q where q: "q \<noteq> []" "product_matches q p = Inl TypeError"
    using product_matches_no_description by blast
  with a obtain e where e: "filter_js (product_matches q) rows = Inl e"
    using filter_js_throws [of p rows "product_matches q"] by blast
  then have "e = TypeError"
    using filter_js_error_from product_matches_error by blast
  with q(1) e show "\<exists>q. q \<noteq> [] \<and> substring_filter product_matches q rows = Inl TypeError"
    by (auto simp: substring_filter_def)
next
  assume "products_searchable rows"
  then obtain ys where "substring_filter product_matches q' rows = Inr ys"
    using products_searchable_total by blast
  then show "\<exists>ys. substring_filter product_matches q' rows = Inr ys \<and> subseq ys rows"
    using substring_filter_subseq by blast
qed

theorem product_filter_needs_description_witness:
  "sample_product_rows ! 2 \<in> set sample_product_rows
   \<and> \<not> is_string (p_description (sample_product_rows ! 2))
   \<and> substring_filter product_matches ''toy'' sample_product_rows = Inl TypeError
   \<and> products_searchable sample_described_rows
   \<and> substring_filter product_matches ''BOOK'' sample_described_rows = Inr [sample_described_rows ! 0]"
  using product_filter_needs_description [where p = "sample_product_rows ! 2"
      and rows = sample_product_rows]
    product_filter_needs_description [where rows = sample_described_rows and q' = "''BOOK''"]
    sample_filters
  by simp

section \<open>The invariant of the displayed list\<close>

lemma search_effect_establishes:
  assumes "search_effect matches t = Inr t'"
  shows "table_inv matches t' \<and> t_rows t' = t_rows t \<and> t_searchQuery t' = t_searchQuery t"
  using assms by (auto simp: search_effect_def table_inv_def split: sum.splits)

lemma search_effect_fixed:
  assumes "table_inv matches t"
  shows "search_effect matches t = Inr t"
  using assms by (simp add: search_effect_def table_inv_def)

lemma search_effect_total:
  assumes "\<forall>r\<in>set (t_rows t). \<exists>b. matches (t_searchQuery t) r = Inr b"
  shows "\<exists>t'. search_effect matches t = Inr t'"
  using assms by (simp add: search_effect_def substring_filter_def filter_js_total)

lemma search_effect_error:
  assumes "search_effect matches t = Inl e"
  shows "t_searchQuery t \<noteq> [] \<and> (\<exists>r\<in>set (t_rows t). matches (t_searchQuery t) r = Inl e)"
  using assms
  by (auto simp: search_effect_def substring_filter_def split: sum.splits if_splits
      dest: filter_js_error_from)

lemma table_inv_fetch_loaded:
  assumes "t_searchQuery t = []"
  shows "search_effect matches (fetch_loaded data t) = Inr (fetch_loaded data t)"
    and "table_inv matches (fetch_loaded data t)"
  using assms by (simp_all add: search_effect_def substring_filter_def fetch_loaded_def table_inv_def)

lemma fetchCustomers_loads:
  assumes "t_searchQuery t = []" and "snd (customersData ops rt customers orders) = Inr rows"
  shows "\<exists>t'. snd (fetchCustomers ops rt (Inr customers) (Inr orders) t) = Inr t'
            \<and> t_rows t' = rows \<and> t_filtered t' = rows \<and> table_inv customer_matches t'"
  using assms
  by (simp add: fetchCustomers_def Let_def table_inv_fetch_loaded) (simp add: fetch_loaded_def)

lemma setSearchQuery_cases:
  assumes "table_inv matches t"
  shows "(\<exists>t'. setSearchQuery matches q t = Inr t' \<and> t_searchQuery t' = q
              \<and> t_rows t' = t_rows t \<and> table_inv matches t')
       \<or> (\<exists>e. setSearchQuery matches q t = Inl e \<and> q \<noteq> []
              \<and> (\<exists>r\<in>set (t_rows t). matches q r = Inl e))"
proof (cases "q = t_searchQuery t")
  case True
  with assms show ?thesis by (simp add: setSearchQuery_def)
next
  case False
  show ?thesis
  proof (cases "search_effect matches (t\<lparr>t_searchQuery := q\<rparr>)")
    case (Inl e)
    from search_effect_error [OF Inl] Inl False show ?thesis
      by (simp add: setSearchQuery_def)
  next
    case (Inr t')
    from search_effect_establishes [OF Inr] Inr False show ?thesis
      by (simp add: setSearchQuery_def)
  qed
qed

lemma setSearchQuery_total:
  assumes "\<forall>r\<in>set (t_rows t). \<exists>b. matches q r = Inr b"
  shows "\<exists>t'. setSearchQuery matches q t = Inr t'"
proof (cases "q = t_searchQuery t")
  case True
  then show ?thesis by (simp add: setSearchQuery_def)
next
  case False
  from assms have "\<exists>t'. search_effect matches (t\<lparr>t_searchQuery := q\<rparr>) = Inr t'"
    by (intro search_effect_total) simp
  with False show ?thesis by (simp add: setSearchQuery_def)
qed

lemma substring_filter_remove:
  assumes "substring_filter matches q rows = Inr shown"
  shows "substring_filter matches q (filter P rows) = Inr (filter P shown)"
proof (cases "q = []")
  case True
  with assms show ?thesis by (simp add: substring_filter_def)
next
  case False
  with assms have a: "\<forall>x\<in>set rows. \<exists>b. matches q x = Inr b"
    and s: "shown = filter (\<lambda>x. matches q x = Inr True) rows"
    by (simp_all add: substring_filter_def filter_js_Inr_iff)
  from a have "filter_js (matches q) (filter P rows)
               = Inr (filter (\<lambda>x. matches q x = Inr True) (filter P rows))"
    by (intro filter_js_total) auto
  with False s show ?thesis
    by (simp add: substring_filter_def conj_commute)
qed

lemma table_inv_remove_row:
  assumes "table_inv matches t"
  shows "table_inv matches (remove_row rid d t)"
  using assms by (simp add: table_inv_def remove_row_def substring_filter_remove)

lemma table_inv_notify [simp]:
  "table_inv matches (notify a b c t) = table_inv matches t"
  by (simp add: table_inv_def notify_def)

lemma table_inv_deleteId [simp]:
  "table_inv matches (t\<lparr>t_deleteId := v\<rparr>) = table_inv matches t"
  by (simp add: table_inv_def)

lemma delete_category_preserves:
  assumes "table_inv category_matches t"
  shows "st_calls (fst (delete_category True d st t)) = st_calls st @ [DeleteDoc ''categories'' d]
         \<and> (\<exists>t'. snd (delete_category True d st t) = Inr t'
           \<and> t_rows t' = filter (\<lambda>c. cat_id c \<noteq> d) (t_rows t)
           \<and> t_filtered t' = filter (\<lambda>c. cat_id c \<noteq> d) (t_filtered t)
           \<and> t_searchQuery t' = t_searchQuery t
           \<and> table_inv category_matches t')"
proof -
  let ?t1 = "(notify ''Category deleted'' ''The category has been deleted successfully'' False
               (remove_row category_rid d t)) \<lparr> t_deleteId := Null \<rparr>"
  from assms have "table_inv category_matches ?t1"
    by (simp add: table_inv_remove_row)
  moreover from this have "snd (delete_category True d st t) = Inr ?t1"
    by (simp add: delete_category_def Let_def search_effect_fixed)
  moreover have "st_calls (fst (delete_category True d st t)) = st_calls st @ [DeleteDoc ''categories'' d]"
    by (simp add: delete_category_def Let_def deleted_from_store_def issue_deleteDoc_def)
  ultimately show ?thesis
    by (simp add: notify_def remove_row_def category_rid_def)
qed

lemma handleDeleteProduct_preserves:
  assumes "table_inv product_matches t" and "t_deleteId t = Str d" and "d \<noteq> []"
  shows "\<exists>t'. snd (handleDeleteProduct True (st, t)) = Inr t'
           \<and> t_rows t' = filter (\<lambda>p. p_id p \<noteq> Str d) (t_rows t)
           \<and> t_filtered t' = filter (\<lambda>p. p_id p \<noteq> Str d) (t_filtered t)
           \<and> t_searchQuery t' = t_searchQuery t
           \<and> table_inv product_matches t'"
proof -
  let ?t1 = "(notify ''Product deleted'' ''The product has been deleted successfully'' False
               (remove_row p_id d t)) \<lparr> t_deleteId := Null \<rparr>"
  from assms(1) have "table_inv product_matches ?t1"
    by (simp add: table_inv_remove_row)
  moreover from this assms(2,3) have "snd (handleDeleteProduct True (st, t)) = Inr ?t1"
    by (simp add: handleDeleteProduct_def Let_def search_effect_fixed)
  ultimately show ?thesis
    by (simp add: notify_def remove_row_def)
qed

lemma handleDeleteCategory_cases:
  assumes "t_deleteId t = Str d" and "d \<noteq> []"
  shows "handleDeleteCategory ok (st, t) = delete_category ok d st t
       \<or> (\<exists>n. handleDeleteCategory ok (st, t) =
            (st, Inr ((notify ''Cannot delete category''
                        (''This category has '' @ string_of_nat n
                           @ '' products. Remove the products first.'') True t)
                      \<lparr> t_deleteId := Null \<rparr>)))"
  using assms by (auto simp: handleDeleteCategory_def split: option.splits count_value.splits)

lemma handleDeleteCategory_preserves:
  assumes "table_inv category_matches t" and "t_deleteId t = Str d" and "d \<noteq> []"
  shows "\<exists>t'. snd (handleDeleteCategory True (st, t)) = Inr t'
           \<and> t_searchQuery t' = t_searchQuery t
           \<and> table_inv category_matches t'
           \<and> (st_calls (fst (handleDeleteCategory True (st, t)))
                  = st_calls st @ [DeleteDoc ''categories'' d]
                \<and> t_rows t' = filter (\<lambda>c. cat_id c \<noteq> d) (t_rows t)
                \<and> t_filtered t' = filter (\<lambda>c. cat_id c \<noteq> d) (t_filtered t)
              \<or> fst (handleDeleteCategory True (st, t)) = st
                \<and> t_rows t' = t_rows t \<and> t_filtered t' = t_filtered t)"
proof -
  from handleDeleteCategory_cases [OF assms(2,3), of True st]
  consider "handleDeleteCategory True (st, t) = delete_category True d st t"
    | n where "handleDeleteCategory True (st, t) =
            (st, Inr ((notify ''Cannot delete category''
                        (''This category has '' @ string_of_nat n
                           @ '' products. Remove the products first.'') True t)
                      \<lparr> t_deleteId := Null \<rparr>))"
    by blast
  then show ?thesis
  proof cases
    case 1
    with delete_category_preserves [OF assms(1), of d st] show ?thesis
      by auto
  next
    case 2
    with assms(1) show ?thesis
      by (simp add: notify_def table_inv_def)
  qed
qed

lemma customers_searchable_total:
  "customers_searchable rows \<Longrightarrow> \<forall>r\<in>set rows. \<exists>b. customer_matches q r = Inr b"
  by (auto simp: customers_searchable_def list_all_iff customer_matches_def dest: lower_includes_string)

lemma categories_searchable_total:
  "categories_searchable rows \<Longrightarrow> \<forall>r\<in>set rows. \<exists>b. category_matches q r = Inr b"
  by (auto simp: categories_searchable_def list_all_iff category_matches_def dest: lower_includes_string)

lemma products_searchable_each:
  "products_searchable rows \<Longrightarrow> \<forall>r\<in>set rows. \<exists>b. product_matches q r = Inr b"
  by (auto simp: products_searchable_def list_all_iff intro: product_matches_searchable)

lemma sample_tables:
  "t_searchQuery sample_customers_table = []"
  "t_searchQuery (setDeleteId (Str ''c2'') sample_categories_table) = []"
  "t_searchQuery (setDeleteId (Str ''p1'') sample_products_table) = []"
  "table_inv customer_matches sample_customers_table"
  "table_inv category_matches (setDeleteId (Str ''c2'') sample_categories_table)"
  "table_inv product_matches (setDeleteId (Str ''p1'') sample_products_table)"
  "table_inv product_matches sample_undescribed_table"
  "customers_searchable (t_rows sample_customers_table)"
  "categories_searchable (t_rows (setDeleteId (Str ''c2'') sample_categories_table))"
  "products_searchable (t_rows (setDeleteId (Str ''p1'') sample_products_table))"
  "t_deleteId (setDeleteId (Str ''c2'') sample_categories_table) = Str ''c2''"
  "t_deleteId (setDeleteId (Str ''p1'') sample_products_table) = Str ''p1''"
  "snd (customersData whole_ops {} sample_customers sample_orders) = Inr sample_customer_rows"
  by code_simp+

lemma sample_steps:
  "outcome_lists (snd (fetchCustomers whole_ops {} (Inr sample_customers) (Inr sample_orders)
       sample_customers_table))
     = Inr (sample_customer_rows, sample_customer_rows)"
  "outcome_lists (setSearchQuery customer_matches ''U1'' sample_customers_table)
     = Inr (sample_customer_rows, [sample_customer_rows ! 0])"
  "outcome_lists (setSearchQuery category_matches ''TOY'' (setDeleteId (Str ''c2'') sample_categories_table))
     = Inr (sample_category_rows, [sample_category_rows ! Suc 0])"
  "outcome_lists (setSearchQuery product_matches ''BOOK'' (setDeleteId (Str ''p1'') sample_products_table))
     = Inr (sample_described_rows, [sample_described_rows ! 0])"
  "outcome_lists (setSearchQuery product_matches ''ball'' sample_undescribed_table)
     = Inr (sample_product_rows, [sample_product_rows ! 2])"
  "outcome_lists (snd (handleDeleteCategory True
       (sample_store, setDeleteId (Str ''c2'') sample_categories_table)))
     = Inr ([sample_category_rows ! 0], [sample_category_rows ! 0])"
  "st_calls (fst (handleDeleteCategory True
       (sample_store, setDeleteId (Str ''c2'') sample_categories_table)))
     = [DeleteDoc ''categories'' ''c2'']"
  "outcome_lists (snd (handleDeleteProduct True
       (sample_store, setDeleteId (Str ''p1'') sample_products_table)))
     = Inr ([sample_described_rows ! Suc 0], [sample_described_rows ! Suc 0])"
  by code_simp+

text \<open>
  Claim C9, as stated, has the invariant preserved by every query change in every table.
  In a products table that holds a product without description the invariant holds after
  the fetch, and typing the query \<^verbatim>\<open>toy\<close> makes the search effect throw: no displayed list
  results.
\<close>

theorem filtered_list_counterexample:
  "table_inv product_matches sample_undescribed_table
   \<and> setSearchQuery product_matches ''toy'' sample_undescribed_table = Inl TypeError"
  by code_simp

text \<open>
  Claim C9, amended. In the customers, categories and products tables the displayed list
  equals the substring filter of the full row list under the current query as follows.
  \<^item> A fetch that loads its rows while the query is still empty establishes the invariant,
    the displayed list being the full list.
  \<^item> From a state in which the invariant holds, a query change either leaves a state with
    the new query, the same rows and the invariant, or the search effect throws; it throws
    only for a non-empty query, with the exception that the predicate throws on one of the
    rows.
  \<^item> A query change always leaves a state when every row carries the searched fields as
    strings (\<^verbatim>\<open>userId\<close>; \<^verbatim>\<open>name\<close>; \<^verbatim>\<open>name\<close> and \<^verbatim>\<open>description\<close>).
  \<^item> From a state in which the invariant holds, a delete that the gateway answers leaves
    the invariant: the products handler removes the deleted row from both lists; the
    categories handler either issues the delete and removes the row from both lists, or
    leaves store and lists as they were.
\<close>

theorem filtered_list_invariant:
  fixes tc :: "customer table" and tg :: "category deleting_table" and tp :: "product deleting_table"
  shows
   "(t_searchQuery tc = [] \<and> snd (customersData ops rt customers orders) = Inr rows \<longrightarrow>
       (\<exists>t'. snd (fetchCustomers ops rt (Inr customers) (Inr orders) tc) = Inr t'
            \<and> t_rows t' = rows \<and> t_filtered t' = t_rows t'
            \<and> table_inv customer_matches t'))
    \<and> (t_searchQuery tg = [] \<longrightarrow>
       (\<exists>t'. fetchCategories (Inr cats) (Inr products) tg = Inr t'
            \<and> t_rows t' = categoriesData products cats \<and> t_filtered t' = t_rows t'
            \<and> table_inv category_matches t'))
    \<and> (t_searchQuery tp = [] \<longrightarrow>
       (\<exists>t'. fetchProducts (Inr products) (Inr cats) tp = Inr t'
            \<and> t_rows t' = productsData products cats \<and> t_filtered t' = t_rows t'
            \<and> table_inv product_matches t'))
    \<and> (table_inv customer_matches tc \<longrightarrow>
         (\<exists>t'. setSearchQuery customer_matches q tc = Inr t' \<and> t_searchQuery t' = q
              \<and> t_rows t' = t_rows tc \<and> table_inv customer_matches t')
       \<or> (\<exists>e. setSearchQuery customer_matches q tc = Inl e \<and> q \<noteq> []
              \<and> (\<exists>r\<in>set (t_rows tc). customer_matches q r = Inl e)))
    \<and> (table_inv category_matches tg \<longrightarrow>
         (\<exists>t'. setSearchQuery category_matches q tg = Inr t' \<and> t_searchQuery t' = q
              \<and> t_rows t' = t_rows tg \<and> table_inv category_matches t')
       \<or> (\<exists>e. setSearchQuery category_matches q tg = Inl e \<and> q \<noteq> []
              \<and> (\<exists>r\<in>set (t_rows tg). category_matches q r = Inl e)))
    \<and> (table_inv product_matches tp \<longrightarrow>
         (\<exists>t'. setSearchQuery product_matches q tp = Inr t' \<and> t_searchQuery t' = q
              \<and> t_rows t' = t_rows tp \<and> table_inv product_matches t')
       \<or> (\<exists>e. setSearchQuery product_matches q tp = Inl e \<and> q \<noteq> []
              \<and> (\<exists>r\<in>set (t_rows tp). product_matches q r = Inl e)))
    \<and> (customers_searchable (t_rows tc) \<longrightarrow> (\<exists>t'. setSearchQuery customer_matches q tc = Inr t'))
    \<and> (categories_searchable (t_rows tg) \<longrightarrow> (\<exists>t'. setSearchQuery category_matches q tg = Inr t'))
    \<and> (products_searchable (t_rows tp) \<longrightarrow> (\<exists>t'. setSearchQuery product_matches q tp = Inr t'))
    \<and> (table_inv category_matches tg \<and> t_deleteId tg = Str d \<and> d \<noteq> [] \<longrightarrow>
       (\<exists>t'. snd (handleDeleteCategory True (st, tg)) = Inr t'
            \<and> t_searchQuery t' = t_searchQuery tg
            \<and> table_inv category_matches t'
            \<and> (st_calls (fst (handleDeleteCategory True (st, tg)))
                   = st_calls st @ [DeleteDoc ''categories'' d]
                 \<and> t_rows t' = filter (\<lambda>c. cat_id c \<noteq> d) (t_rows tg)
                 \<and> t_filtered t' = filter (\<lambda>c. cat_id c \<noteq> d) (t_filtered tg)
               \<or> fst (handleDeleteCategory True (st, tg)) = st
                 \<and> t_rows t' = t_rows tg \<and> t_filtered t' = t_filtered tg)))
    \<and> (table_inv product_matches tp \<and> t_deleteId tp = Str d \<and> d \<noteq> [] \<longrightarrow>
       (\<exists>t'. snd (handleDeleteProduct True (st, tp)) = Inr t'
            \<and> t_rows t' = filter (\<lambda>p. p_id p \<noteq> Str d) (t_rows tp)
            \<and> t_filtered t' = filter (\<lambda>p. p_id p \<noteq> Str d) (t_filtered tp)
            \<and> t_searchQuery t' = t_searchQuery tp
            \<and> table_inv product_matches t'))"
proof (intro conjI impI)
  assume "t_searchQuery tc = [] \<and> snd (customersData ops rt customers orders) = Inr rows"
  then show "\<exists>t'. snd (fetchCustomers ops rt (Inr customers) (Inr orders) tc) = Inr t'
            \<and> t_rows t' = rows \<and> t_filtered t' = t_rows t'
            \<and> table_inv customer_matches t'"
    using fetchCustomers_loads [of tc ops rt customers orders rows] by auto
next
  assume "t_searchQuery tg = []"
  then show "\<exists>t'. fetchCategories (Inr cats) (Inr products) tg = Inr t'
            \<and> t_rows t' = categoriesData products cats \<and> t_filtered t' = t_rows t'
            \<and> table_inv category_matches t'"
    by (simp add: fetchCategories_def table_inv_fetch_loaded) (simp add: fetch_loaded_def)
next
  assume "t_searchQuery tp = []"
  then show "\<exists>t'. fetchProducts (Inr products) (Inr cats) tp = Inr t'
            \<and> t_rows t' = productsData products cats \<and> t_filtered t' = t_rows t'
            \<and> table_inv product_matches t'"
    by (simp add: fetchProducts_def table_inv_fetch_loaded) (simp add: fetch_loaded_def)
next
  assume "table_inv customer_matches tc"
  then show "(\<exists>t'. setSearchQuery customer_matches q tc = Inr t' \<and> t_searchQuery t' = q
              \<and> t_rows t' = t_rows tc \<and> table_inv customer_matches t')
       \<or> (\<exists>e. setSearchQuery customer_matches q tc = Inl e \<and> q \<noteq> []
              \<and> (\<exists>r\<in>set (t_rows tc). customer_matches q r = Inl e))"
    by (rule setSearchQuery_cases)
next
  assume "table_inv category_matches tg"
  then show "(\<exists>t'. setSearchQuery category_matches q tg = Inr t' \<and> t_searchQuery t' = q
              \<and> t_rows t' = t_rows tg \<and> table_inv category_matches t')
       \<or> (\<exists>e. setSearchQuery category_matches q tg = Inl e \<and> q \<noteq> []
              \<and> (\<exists>r\<in>set (t_rows tg). category_matches q r = Inl e))"
    by (rule setSearchQuery_cases)
next
  assume "table_inv product_matches tp"
  then show "(\<exists>t'. setSearchQuery product_matches q tp = Inr t' \<and> t_searchQuery t' = q
              \<and> t_rows t' = t_rows tp \<and> table_inv product_matches t')
       \<or> (\<exists>e. setSearchQuery product_matches q tp = Inl e \<and> q \<noteq> []
              \<and> (\<exists>r\<in>set (t_rows tp). product_matches q r = Inl e))"
    by (rule setSearchQuery_cases)
next
  assume "customers_searchable (t_rows tc)"
  then show "\<exists>t'. setSearchQuery customer_matches q tc = Inr t'"
    by (intro setSearchQuery_total customers_searchable_total)
next
  assume "categories_searchable (t_rows tg)"
  then show "\<exists>t'. setSearchQuery category_matches q tg = Inr t'"
    by (intro setSearchQuery_total categories_searchable_total)
next
  assume "products_searchable (t_rows tp)"
  then show "\<exists>t'. setSearchQuery product_matches q tp = Inr t'"
    by (intro setSearchQuery_total products_searchable_each)
next
  assume "table_inv category_matches tg \<and> t_deleteId tg = Str d \<and> d \<noteq> []"
  then show "\<exists>t'. snd (handleDeleteCategory True (st, tg)) = Inr t'
            \<and> t_searchQuery t' = t_searchQuery tg
            \<and> table_inv category_matches t'
            \<and> (st_calls (fst (handleDeleteCategory True (st, tg)))
                   = st_calls st @ [DeleteDoc ''categories'' d]
                 \<and> t_rows t' = filter (\<lambda>c. cat_id c \<noteq> d) (t_rows tg)
                 \<and> t_filtered t' = filter (\<lambda>c. cat_id c \<noteq> d) (t_filtered tg)
               \<or> fst (handleDeleteCategory True (st, tg)) = st
                 \<and> t_rows t' = t_rows tg \<and> t_filtered t' = t_filtered tg)"
    by (intro handleDeleteCategory_preserves) simp_all
next
  assume "table_inv product_matches tp \<and> t_deleteId tp = Str d \<and> d \<noteq> []"
  then show "\<exists>t'. snd (handleDeleteProduct True (st, tp)) = Inr t'
            \<and> t_rows t' = filter (\<lambda>p. p_id p \<noteq> Str d) (t_rows tp)
            \<and> t_filtered t' = filter (\<lambda>p. p_id p \<noteq> Str d) (t_filtered tp)
            \<and> t_searchQuery t' = t_searchQuery tp
            \<and> table_inv product_matches t'"
    by (intro handleDeleteProduct_preserves) simp_all
qed

theorem filtered_list_invariant_witness:
  "t_searchQuery sample_customers_table = []
   \<and> snd (customersData whole_ops {} sample_customers sample_orders) = Inr sample_customer_rows
   \<and> t_searchQuery (setDeleteId (Str ''c2'') sample_categories_table) = []
   \<and> t_searchQuery (setDeleteId (Str ''p1'') sample_products_table) = []
   \<and> table_inv customer_matches sample_customers_table
   \<and> customers_searchable (t_rows sample_customers_table)
   \<and> table_inv category_matches (setDeleteId (Str ''c2'') sample_categories_table)
   \<and> categories_searchable (t_rows (setDeleteId (Str ''c2'') sample_categories_table))
   \<and> table_inv product_matches (setDeleteId (Str ''p1'') sample_products_table)
   \<and> products_searchable (t_rows (setDeleteId (Str ''p1'') sample_products_table))
   \<and> table_inv product_matches sample_undescribed_table
   \<and> t_deleteId (setDeleteId (Str ''c2'') sample_categories_table) = Str ''c2''
   \<and> t_deleteId (setDeleteId (Str ''p1'') sample_products_table) = Str ''p1''
   \<and> outcome_lists (snd (fetchCustomers whole_ops {} (Inr sample_customers) (Inr sample_orders)
         sample_customers_table))
       = Inr (sample_customer_rows, sample_customer_rows)
   \<and> outcome_lists (setSearchQuery customer_matches ''U1'' sample_customers_table)
       = Inr (sample_customer_rows, [sample_customer_rows ! 0])
   \<and> outcome_lists (setSearchQuery category_matches ''TOY'' (setDeleteId (Str ''c2'') sample_categories_table))
       = Inr (sample_category_rows, [sample_category_rows ! Suc 0])
   \<and> outcome_lists (setSearchQuery product_matches ''BOOK'' (setDeleteId (Str ''p1'') sample_products_table))
       = Inr (sample_described_rows, [sample_described_rows ! 0])
   \<and> outcome_lists (setSearchQuery product_matches ''ball'' sample_undescribed_table)
       = Inr (sample_product_rows, [sample_product_rows ! 2])
   \<and> table_inv product_matches (projr (setSearchQuery product_matches ''ball'' sample_undescribed_table))
   \<and> st_calls (fst (handleDeleteCategory True
         (sample_store, setDeleteId (Str ''c2'') sample_categories_table)))
       = [DeleteDoc ''categories'' ''c2'']
   \<and> outcome_lists (snd (handleDeleteCategory True
         (sample_store, setDeleteId (Str ''c2'') sample_categories_table)))
       = Inr ([sample_category_rows ! 0], [sample_category_rows ! 0])
   \<and> outcome_lists (snd (handleDeleteProduct True
         (sample_store, setDeleteId (Str ''p1'') sample_products_table)))
       = Inr ([sample_described_rows ! Suc 0], [sample_described_rows ! Suc 0])"
proof -
  have "table_inv product_matches sample_undescribed_table \<longrightarrow>
         (\<exists>t'. setSearchQuery product_matches ''ball'' sample_undescribed_table = Inr t'
              \<and> t_searchQuery t' = ''ball''
              \<and> t_rows t' = t_rows sample_undescribed_table \<and> table_inv product_matches t')
       \<or> (\<exists>e. setSearchQuery product_matches ''ball'' sample_undescribed_table = Inl e
              \<and> ''ball'' \<noteq> []
              \<and> (\<exists>r\<in>set (t_rows sample_undescribed_table). product_matches ''ball'' r = Inl e))"
    using filtered_list_invariant [where tc = sample_customers_table and ops = whole_ops and rt = "{}"
        and customers = sample_customers and orders = sample_orders and rows = sample_customer_rows
        and tg = "setDeleteId (Str ''c2'') sample_categories_table"
        and cats = sample_categories and products = sample_products
        and tp = sample_undescribed_table
        and q = "''ball''" and d = "''c2''" and st = sample_store]
    by (elim conjE)
  then obtain t' where "setSearchQuery product_matches ''ball'' sample_undescribed_table = Inr t'"
    and "table_inv product_matches t'"
    using sample_tables(7) sample_steps(5) by (auto simp: outcome_lists_def)
  then have ball: "table_inv product_matches
      (projr (setSearchQuery product_matches ''ball'' sample_undescribed_table))"
    by simp
  show ?thesis
    using ball
      filtered_list_invariant [where tc = sample_customers_table and ops = whole_ops and rt = "{}"
        and customers = sample_customers and orders = sample_orders and rows = sample_customer_rows
        and tg = "setDeleteId (Str ''c2'') sample_categories_table"
        and cats = sample_categories and products = sample_products
        and tp = "setDeleteId (Str ''p1'') sample_products_table"
        and q = "''U1''" and d = "''c2''" and st = sample_store]
    by (simp add: sample_tables sample_steps)
qed

end
